theory Spec2Isabelle
  imports Complex_Main
begin

section \<open>Conventions\<close>

text \<open>
  The development embeds the estimation core of the eye-tracking controller:
  \<^verbatim>\<open>core/gaze_mapper.py\<close>, \<^verbatim>\<open>core/smoother.py\<close>, \<^verbatim>\<open>core/expression_engine.py\<close> and
  \<^verbatim>\<open>utils/safety.py\<close>.

  \<^item> Python floats and numpy float arrays are read as exact reals (\<^typ>\<open>real\<close>); a
    two-element position array is a pair. Rounding, infinities and NaN have no counterpart,
    so every place where numpy would produce a non-finite value is a separate outcome.
  \<^item> Every call of \<^verbatim>\<open>time.time()\<close> is an explicit argument of the operation that makes it.
  \<^item> A method that mutates \<^verbatim>\<open>self\<close> takes the object as a record and returns the new one.
  \<^item> Names that start with an underscore in the source lose it.
\<close>

section \<open>Small vectors and matrices\<close>

type_synonym vec2 = "real \<times> real"
type_synonym vec3 = "real \<times> real \<times> real"
type_synonym mat23 = "vec3 \<times> vec3"
type_synonym mat32 = "vec2 \<times> vec2 \<times> vec2"

fun dot3 :: "vec3 \<Rightarrow> vec3 \<Rightarrow> real" where
  "dot3 (a, b, c) (x, y, z) = a * x + b * y + c * z"

section \<open>numpy helpers\<close>

text \<open>\<^verbatim>\<open>np.clip(x, lo, hi)\<close> is \<^verbatim>\<open>minimum(maximum(x, lo), hi)\<close>.\<close>

definition np_clip :: "real \<Rightarrow> real \<Rightarrow> real \<Rightarrow> real" where
  "np_clip x lo hi = min (max x lo) hi"

text \<open>\<^verbatim>\<open>np.linalg.norm\<close> of a two-element array.\<close>

definition norm2 :: "vec2 \<Rightarrow> real" where
  "norm2 v = sqrt (fst v * fst v + snd v * snd v)"


text \<open>
  A numpy computation either stays finite or passes through \<^verbatim>\<open>inf\<close>/\<^verbatim>\<open>nan\<close> (a division by
  zero, a zero base raised to a negative power). numpy raises nothing there, it only warns;
  the real-valued model stops following the value and returns \<open>NonFinite\<close>.
\<close>

datatype 'a np_result = Finite 'a | NonFinite

text \<open>\<^verbatim>\<open>x ** a\<close> on floats.\<close>

definition np_power :: "real \<Rightarrow> real \<Rightarrow> real np_result" where
  "np_power x a =
     (if x = 0 then (if a = 0 then Finite 1 else if 0 < a then Finite 0 else NonFinite)
      else if 0 < x then Finite (x powr a)
      else if a \<in> \<int> then Finite (power_int x \<lfloor>a\<rfloor>)
      else NonFinite)"

text \<open>\<^verbatim>\<open>collections.deque(maxlen=n).append(x)\<close>: a full deque drops its oldest (leftmost)
  element.\<close>

definition deque_append :: "nat \<Rightarrow> 'a list \<Rightarrow> 'a \<Rightarrow> 'a list" where
  "deque_append maxlen xs x = (if maxlen \<le> length xs then tl xs @ [x] else xs @ [x])"

text \<open>The exceptions that the embedded code can meet: \<^verbatim>\<open>ValueError\<close> from a matrix
  product with \<^verbatim>\<open>None\<close>, \<^verbatim>\<open>LinAlgError\<close> from \<^verbatim>\<open>numpy.linalg\<close>.\<close>

datatype py_error = ValueError | LinAlgError

section \<open>numpy.linalg.lstsq\<close>

text \<open>
  \<^verbatim>\<open>np.linalg.lstsq(a, b, rcond=None)[0]\<close> is library code: a singular value
  decomposition in floating point that drops the singular values below machine precision
  times the largest one, and raises \<^verbatim>\<open>LinAlgError\<close> when it does not converge. Nothing of
  it is modelled. The embedding takes the library call as a parameter, a function from the
  N x 3 matrix and the N x 2 matrix to the exception raised or the 3 x 2 solution
  returned, and every statement about \<^verbatim>\<open>compute_calibration\<close> holds for every such
  function.
\<close>

type_synonym lstsq_fn = "vec3 list \<Rightarrow> vec2 list \<Rightarrow> py_error + mat32"

text \<open>\<^verbatim>\<open>.T\<close> of a 3x2 array.\<close>

fun transpose32 :: "mat32 \<Rightarrow> mat23" where
  "transpose32 ((x1, y1), (x2, y2), (x3, y3)) = ((x1, x2, x3), (y1, y2, y3))"

section \<open>core/gaze_mapper.py\<close>

record CalibrationPoint =
  screen_pos :: vec2
  gaze_pos :: vec2
  iris_left :: "vec2 option"
  iris_right :: "vec2 option"

text \<open>The fields of \<^verbatim>\<open>GazeMapper\<close> that its methods read or write; \<^verbatim>\<open>logger\<close>,
  \<^verbatim>\<open>config\<close> and the constant \<^verbatim>\<open>gaze_bounds\<close> are left out.\<close>

record GazeMapper =
  screen_width :: int
  screen_height :: int
  calibration_points :: "CalibrationPoint list"
  is_calibrated :: bool
  transform_matrix :: "mat23 option"
  eye_dominance :: string

definition init_default_mapping :: "GazeMapper \<Rightarrow> GazeMapper" where
  "init_default_mapping m =
     m\<lparr>transform_matrix := Some
         ((real_of_int (screen_width m) / 2, 0, real_of_int (screen_width m) / 2),
          (0, real_of_int (screen_height m) / 2, real_of_int (screen_height m) / 2))\<rparr>"

text \<open>\<^verbatim>\<open>__init__\<close>; the configuration is a dictionary, of which only
  \<^verbatim>\<open>eye_dominance\<close> is read (default \<^verbatim>\<open>'both'\<close>).\<close>

definition GazeMapper_init :: "(string \<rightharpoonup> string) \<Rightarrow> int \<Rightarrow> int \<Rightarrow> GazeMapper" where
  "GazeMapper_init config w h =
     init_default_mapping
       \<lparr>screen_width = w, screen_height = h, calibration_points = [],
        is_calibrated = False, transform_matrix = None,
        eye_dominance = (case config ''eye_dominance'' of None \<Rightarrow> ''both'' | Some d \<Rightarrow> d)\<rparr>"

definition normalize_iris :: "vec2 \<Rightarrow> int \<Rightarrow> int \<Rightarrow> vec2" where
  "normalize_iris iris frame_width frame_height =
     ((fst iris / real_of_int frame_width) * 2 - 1,
      (snd iris / real_of_int frame_height) * 2 - 1)"

text \<open>
  \<^verbatim>\<open>estimate_gaze\<close>. \<open>None\<close> is Python's \<^verbatim>\<open>None\<close>. A frame dimension of zero makes numpy
  divide by zero (a warning, no exception) and every returned array then holds \<^verbatim>\<open>inf\<close> or
  \<^verbatim>\<open>nan\<close>: that is \<open>Some NonFinite\<close>.
\<close>

definition estimate_gaze ::
  "GazeMapper \<Rightarrow> vec2 option \<Rightarrow> vec2 option \<Rightarrow> int \<Rightarrow> int \<Rightarrow> vec2 np_result option" where
  "estimate_gaze m left_iris right_iris frame_width frame_height =
     (if left_iris = None \<and> right_iris = None then None
      else if frame_width = 0 \<or> frame_height = 0 then Some NonFinite
      else
        let normalized_positions =
              (case left_iris of None \<Rightarrow> []
               | Some l \<Rightarrow> [normalize_iris l frame_width frame_height]) @
              (case right_iris of None \<Rightarrow> []
               | Some r \<Rightarrow> [normalize_iris r frame_width frame_height])
        in if length normalized_positions = 2 then
             (if eye_dominance m = ''left'' then Some (Finite (normalized_positions ! 0))
              else if eye_dominance m = ''right'' then Some (Finite (normalized_positions ! 1))
              else Some (Finite
                     ((fst (normalized_positions ! 0) + fst (normalized_positions ! 1)) / 2,
                      (snd (normalized_positions ! 0) + snd (normalized_positions ! 1)) / 2)))
           else Some (Finite (normalized_positions ! 0)))"

text \<open>The matrix product \<^verbatim>\<open>transform_matrix @ [gaze[0], gaze[1], 1.0]\<close>.\<close>

definition apply_transform :: "mat23 \<Rightarrow> vec2 \<Rightarrow> vec2" where
  "apply_transform T gaze =
     (dot3 (fst T) (fst gaze, snd gaze, 1), dot3 (snd T) (fst gaze, snd gaze, 1))"

text \<open>\<^verbatim>\<open>gaze_to_screen\<close>; with \<^verbatim>\<open>transform_matrix = None\<close> the product raises
  \<^verbatim>\<open>ValueError\<close>.\<close>

definition gaze_to_screen :: "GazeMapper \<Rightarrow> vec2 \<Rightarrow> py_error + vec2" where
  "gaze_to_screen m gaze =
     (case transform_matrix m of
        None \<Rightarrow> Inl ValueError
      | Some T \<Rightarrow>
          let screen_pos = apply_transform T gaze
          in Inr (np_clip (fst screen_pos) 0 (real_of_int (screen_width m)),
                  np_clip (snd screen_pos) 0 (real_of_int (screen_height m))))"

text \<open>What \<^verbatim>\<open>compute_calibration\<close> writes to its logger, next to the boolean it returns.\<close>

datatype calibration_log =
    NeedFourPoints
  | CalibrationComplete nat
  | CalibrationFailed py_error

text \<open>The two arrays that the loop of \<^verbatim>\<open>compute_calibration\<close> builds, one row per
  calibration point.\<close>

definition gaze_matrix :: "CalibrationPoint list \<Rightarrow> vec3 list" where
  "gaze_matrix points = map (\<lambda>point. (fst (gaze_pos point), snd (gaze_pos point), 1)) points"

definition screen_matrix :: "CalibrationPoint list \<Rightarrow> vec2 list" where
  "screen_matrix points = map (\<lambda>point. (fst (screen_pos point), snd (screen_pos point))) points"

text \<open>
  \<^verbatim>\<open>compute_calibration\<close> returns its boolean and the mapper after the call; \<open>lstsq\<close> is
  the library call. The rows are built from pairs, so inside the \<^verbatim>\<open>try\<close> block only
  \<^verbatim>\<open>lstsq\<close> can raise; the \<^verbatim>\<open>except\<close> branch logs the error and returns \<^verbatim>\<open>False\<close>
  before anything was assigned.
\<close>

definition compute_calibration ::
  "lstsq_fn \<Rightarrow> GazeMapper \<Rightarrow> (bool \<times> calibration_log) \<times> GazeMapper" where
  "compute_calibration lstsq m =
     (if length (calibration_points m) < 4 then ((False, NeedFourPoints), m)
      else
        case lstsq (gaze_matrix (calibration_points m)) (screen_matrix (calibration_points m)) of
          Inl e \<Rightarrow> ((False, CalibrationFailed e), m)
        | Inr transform_T \<Rightarrow>
            ((True, CalibrationComplete (length (calibration_points m))),
             m\<lparr>transform_matrix := Some (transpose32 transform_T), is_calibrated := True\<rparr>))"

definition reset_calibration :: "GazeMapper \<Rightarrow> GazeMapper" where
  "reset_calibration m =
     init_default_mapping (m\<lparr>calibration_points := [], is_calibrated := False\<rparr>)"

text \<open>Vocabulary of the calibration claims: three gaze points on one line (two of them
  may coincide), and a list of gaze points that are all on one line or all the same
  point.\<close>

definition collinear3 :: "vec2 \<Rightarrow> vec2 \<Rightarrow> vec2 \<Rightarrow> bool" where
  "collinear3 p q r \<longleftrightarrow>
     (fst q - fst p) * (snd r - snd p) - (snd q - snd p) * (fst r - fst p) = 0"

definition degenerate :: "vec2 list \<Rightarrow> bool" where
  "degenerate ps \<longleftrightarrow> (\<forall>p \<in> set ps. \<forall>q \<in> set ps. \<forall>r \<in> set ps. collinear3 p q r)"

section \<open>core/smoother.py: the velocity and dead-zone stage\<close>

record VelocityBasedSmoother =
  dead_zone :: real
  acceleration :: real
  center :: "vec2 option"
  velocity_history :: "vec2 list"

definition VelocityBasedSmoother_init :: "real \<Rightarrow> real \<Rightarrow> VelocityBasedSmoother" where
  "VelocityBasedSmoother_init dz acc =
     \<lparr>dead_zone = dz, acceleration = acc, center = None, velocity_history = []\<rparr>"

text \<open>
  \<^verbatim>\<open>apply\<close>. The local \<^verbatim>\<open>velocity\<close> is computed and never used, so only the append to
  \<^verbatim>\<open>velocity_history\<close> (a deque of at most 5) remains of it. A screen of diagonal 0
  divides by zero.
\<close>

definition apply_smoother ::
  "VelocityBasedSmoother \<Rightarrow> vec2 \<Rightarrow> int \<times> int \<Rightarrow> vec2 np_result \<times> VelocityBasedSmoother" where
  "apply_smoother sm position screen_size =
     (let c = (case center sm of
                 None \<Rightarrow> (real_of_int (fst screen_size) / 2, real_of_int (snd screen_size) / 2)
               | Some c \<Rightarrow> c);
          sm1 = sm\<lparr>center := Some c\<rparr>;
          diff = (fst position - fst c, snd position - snd c);
          distance = norm2 diff
      in if distance < dead_zone sm then (Finite c, sm1)
         else
           let sm2 = sm1\<lparr>velocity_history := deque_append 5 (velocity_history sm1) position\<rparr>;
               screen_diagonal =
                 norm2 (real_of_int (fst screen_size), real_of_int (snd screen_size))
           in if screen_diagonal = 0 then (NonFinite, sm2)
              else
                let distance_ratio = distance / (screen_diagonal / 2)
                in case np_power distance_ratio (acceleration sm) of
                     NonFinite \<Rightarrow> (NonFinite, sm2)
                   | Finite pw \<Rightarrow>
                       let accel_factor = 1 + pw;
                           result = (fst c + fst diff * accel_factor,
                                     snd c + snd diff * accel_factor)
                       in (Finite
                             (np_clip (fst result) 0 (real_of_int (fst screen_size)),
                              np_clip (snd result) 0 (real_of_int (snd screen_size))),
                           sm2))"

definition reset_smoother :: "VelocityBasedSmoother \<Rightarrow> VelocityBasedSmoother" where
  "reset_smoother sm = sm\<lparr>center := None, velocity_history := []\<rparr>"

section \<open>core/expression_engine.py\<close>

datatype Expression =
    NONE | BLINK_LEFT | BLINK_RIGHT | BLINK_BOTH | BLINK_BOTH_LONG
  | EYEBROW_RAISE | EYEBROW_LOWER | SMILE | JAW_OPEN
  | HEAD_TILT_LEFT | HEAD_TILT_RIGHT | HEAD_NOD | HEAD_SHAKE

text \<open>The fields of \<^verbatim>\<open>EyeData\<close> (core/tracker.py) that the engine reads.\<close>

record EyeData =
  left_eye_aspect_ratio :: real
  right_eye_aspect_ratio :: real
  face_detected :: bool
  confidence :: real

record ExpressionState =
  expression :: Expression
  state_confidence :: real
  duration :: real
  start_time :: real

text \<open>\<^verbatim>\<open>ExpressionState(e)\<close> with the dataclass defaults.\<close>

definition ExpressionState_of :: "Expression \<Rightarrow> ExpressionState" where
  "ExpressionState_of e =
     \<lparr>expression = e, state_confidence = 0, duration = 0, start_time = 0\<rparr>"

record ExpressionEngine =
  blink_threshold :: real
  long_blink_duration :: real
  blink_cooldown :: real
  current_state :: ExpressionState
  last_blink_time :: real
  baseline_left_ear :: real
  baseline_right_ear :: real
  baseline_samples :: "(real \<times> real) list"
  baseline_initialized :: bool
  left_eye_closed :: bool
  right_eye_closed :: bool
  both_eyes_closed :: bool
  blink_start_time :: real

definition ExpressionEngine_init :: "(string \<rightharpoonup> real) \<Rightarrow> ExpressionEngine" where
  "ExpressionEngine_init config =
     \<lparr>blink_threshold = (case config ''blink_threshold'' of None \<Rightarrow> 2 / 10 | Some v \<Rightarrow> v),
      long_blink_duration = (case config ''long_blink_ms'' of None \<Rightarrow> 500 | Some v \<Rightarrow> v) / 1000,
      blink_cooldown = (case config ''blink_cooldown_ms'' of None \<Rightarrow> 200 | Some v \<Rightarrow> v) / 1000,
      current_state = ExpressionState_of NONE,
      last_blink_time = 0,
      baseline_left_ear = 3 / 10,
      baseline_right_ear = 3 / 10,
      baseline_samples = [],
      baseline_initialized = False,
      left_eye_closed = False,
      right_eye_closed = False,
      both_eyes_closed = False,
      blink_start_time = 0\<rparr>"

text \<open>\<^verbatim>\<open>np.mean\<close> of a list; the engine only calls it on its 30 samples.\<close>

definition np_mean :: "real list \<Rightarrow> real" where
  "np_mean xs = sum_list xs / real (length xs)"

definition update_baseline :: "ExpressionEngine \<Rightarrow> EyeData \<Rightarrow> ExpressionEngine" where
  "update_baseline eng eye_data =
     (if \<not> face_detected eye_data then eng
      else if length (baseline_samples eng) < 30 then
        eng\<lparr>baseline_samples := baseline_samples eng @
              [(left_eye_aspect_ratio eye_data, right_eye_aspect_ratio eye_data)]\<rparr>
      else
        eng\<lparr>baseline_left_ear := np_mean (map fst (baseline_samples eng)),
            baseline_right_ear := np_mean (map snd (baseline_samples eng)),
            baseline_initialized := True\<rparr>)"

text \<open>The two closure tests at the head of \<^verbatim>\<open>_detect_blink\<close>.\<close>

definition left_closed :: "ExpressionEngine \<Rightarrow> EyeData \<Rightarrow> bool" where
  "left_closed eng eye_data \<longleftrightarrow>
     left_eye_aspect_ratio eye_data < baseline_left_ear eng * blink_threshold eng"

definition right_closed :: "ExpressionEngine \<Rightarrow> EyeData \<Rightarrow> bool" where
  "right_closed eng eye_data \<longleftrightarrow>
     right_eye_aspect_ratio eye_data < baseline_right_ear eng * blink_threshold eng"

text \<open>
  \<^verbatim>\<open>_detect_blink\<close> is a chain of \<^verbatim>\<open>if\<close> statements with early returns. It is cut after
  the combined-blink part and after the left-eye part: \<open>detect_blink_right\<close> is the code
  from \<^verbatim>\<open>if right_closed and not self.right_eye_closed ...\<close> to the end,
  \<open>detect_blink_left\<close> the code from \<^verbatim>\<open>if left_closed and not self.left_eye_closed ...\<close>
  on, and \<open>detect_blink\<close> the whole method.
\<close>

definition detect_blink_right ::
  "ExpressionEngine \<Rightarrow> bool \<Rightarrow> bool \<Rightarrow> real \<Rightarrow> Expression \<times> ExpressionEngine" where
  "detect_blink_right eng l_closed r_closed current_time =
     (let e1 = (if r_closed \<and> \<not> right_eye_closed eng \<and> \<not> l_closed
                then eng\<lparr>right_eye_closed := True, blink_start_time := current_time\<rparr>
                else eng)
      in if right_eye_closed e1 \<and> \<not> r_closed then
           let blink_duration = current_time - blink_start_time e1;
               e2 = e1\<lparr>right_eye_closed := False, blink_start_time := 0\<rparr>
           in if blink_duration < 3 / 10 then (BLINK_RIGHT, e2) else (NONE, e2)
         else (NONE, e1))"

definition detect_blink_left ::
  "ExpressionEngine \<Rightarrow> bool \<Rightarrow> bool \<Rightarrow> real \<Rightarrow> Expression \<times> ExpressionEngine" where
  "detect_blink_left eng l_closed r_closed current_time =
     (let e1 = (if l_closed \<and> \<not> left_eye_closed eng \<and> \<not> r_closed
                then eng\<lparr>left_eye_closed := True, blink_start_time := current_time\<rparr>
                else eng)
      in if left_eye_closed e1 \<and> \<not> l_closed then
           let blink_duration = current_time - blink_start_time e1;
               e2 = e1\<lparr>left_eye_closed := False, blink_start_time := 0\<rparr>
           in if blink_duration < 3 / 10 then (BLINK_LEFT, e2)
              else detect_blink_right e2 l_closed r_closed current_time
         else detect_blink_right e1 l_closed r_closed current_time)"

definition detect_blink ::
  "ExpressionEngine \<Rightarrow> EyeData \<Rightarrow> real \<Rightarrow> Expression \<times> ExpressionEngine" where
  "detect_blink eng eye_data current_time =
     (let l_closed = left_closed eng eye_data;
          r_closed = right_closed eng eye_data;
          both_closed = (l_closed \<and> r_closed);
          e1 = (if both_closed \<and> \<not> both_eyes_closed eng
                then eng\<lparr>both_eyes_closed := True, blink_start_time := current_time\<rparr>
                else eng)
      in if both_eyes_closed e1 \<and> \<not> both_closed then
           let blink_duration = current_time - blink_start_time e1;
               e2 = e1\<lparr>both_eyes_closed := False, blink_start_time := 0\<rparr>
           in if long_blink_duration e2 \<le> blink_duration then (BLINK_BOTH_LONG, e2)
              else (BLINK_BOTH, e2)
         else detect_blink_left e1 l_closed r_closed current_time)"

text \<open>\<^verbatim>\<open>detect_expression\<close>; \<open>current_time\<close> is its reading of \<^verbatim>\<open>time.time()\<close>.\<close>

definition detect_expression ::
  "ExpressionEngine \<Rightarrow> EyeData \<Rightarrow> real \<Rightarrow> ExpressionState \<times> ExpressionEngine" where
  "detect_expression eng eye_data current_time =
     (if \<not> face_detected eye_data then
        (ExpressionState_of NONE, eng\<lparr>current_state := ExpressionState_of NONE\<rparr>)
      else if \<not> baseline_initialized eng then
        (current_state eng, update_baseline eng eye_data)
      else if current_time - last_blink_time eng < blink_cooldown eng then
        (current_state eng, eng)
      else
        case detect_blink eng eye_data current_time of
          (expr, e1) \<Rightarrow>
            if expr \<noteq> NONE then
              let st = \<lparr>expression = expr,
                        state_confidence = confidence eye_data,
                        duration = (if 0 < blink_start_time e1
                                    then current_time - blink_start_time e1 else 0),
                        start_time = current_time\<rparr>;
                  e2 = e1\<lparr>current_state := st, last_blink_time := current_time\<rparr>
              in (st, e2)
            else (current_state e1, e1))"

definition reset_engine :: "ExpressionEngine \<Rightarrow> ExpressionEngine" where
  "reset_engine eng =
     eng\<lparr>current_state := ExpressionState_of NONE,
         left_eye_closed := False, right_eye_closed := False, both_eyes_closed := False,
         blink_start_time := 0, baseline_samples := [], baseline_initialized := False\<rparr>"

text \<open>The processing loop calls \<^verbatim>\<open>detect_expression\<close> once per frame; a frame is the
  observation and the clock reading of that call. \<open>run_frames\<close> returns what
  \<^verbatim>\<open>_detect_blink\<close> was not asked (\<open>None\<close>: no face, baseline phase or cooldown) or what it
  classified, frame by frame, and the engine after the last frame.\<close>

definition blink_of_frame ::
  "ExpressionEngine \<Rightarrow> EyeData \<Rightarrow> real \<Rightarrow> Expression option" where
  "blink_of_frame eng eye_data current_time =
     (if \<not> face_detected eye_data \<or> \<not> baseline_initialized eng
         \<or> current_time - last_blink_time eng < blink_cooldown eng then None
      else Some (fst (detect_blink eng eye_data current_time)))"

fun run_frames ::
  "ExpressionEngine \<Rightarrow> (EyeData \<times> real) list \<Rightarrow> Expression option list \<times> ExpressionEngine" where
  "run_frames eng [] = ([], eng)"
| "run_frames eng ((eye_data, current_time) # frames) =
     (case run_frames (snd (detect_expression eng eye_data current_time)) frames of
        (outs, eng') \<Rightarrow> (blink_of_frame eng eye_data current_time # outs, eng'))"


section \<open>utils/safety.py\<close>

text \<open>The fields of \<^verbatim>\<open>SafetyManager\<close>; \<^verbatim>\<open>click_times\<close> is a \<^verbatim>\<open>deque(maxlen=10)\<close>, oldest
  entry first. The \<^verbatim>\<open>emergency_callback\<close> is a function of the user interface and stays
  outside.\<close>

record SafetyManager =
  enabled :: bool
  paused :: bool
  click_times :: "real list"
  max_clicks_per_second :: int
  last_face_time :: real
  no_face_timeout :: real
  action_cooldowns :: "string \<rightharpoonup> real"
  cooldown_times :: "string \<rightharpoonup> real"
  require_confirmation :: "string set"
  pending_confirmations :: "string \<rightharpoonup> real"

text \<open>The entries of the configuration dictionary that \<^verbatim>\<open>__init__\<close> reads with
  \<^verbatim>\<open>config.get\<close>; \<open>None\<close> is a missing key.\<close>

record SafetyConfig =
  cfg_max_clicks_per_second :: "int option"
  cfg_auto_pause_no_face_ms :: "real option"
  cfg_require_confirmation :: "string list option"

definition SafetyManager_init :: "SafetyConfig \<Rightarrow> real \<Rightarrow> SafetyManager" where
  "SafetyManager_init config now =
     \<lparr>enabled = True,
      paused = False,
      click_times = [],
      max_clicks_per_second =
        (case cfg_max_clicks_per_second config of None \<Rightarrow> 3 | Some n \<Rightarrow> n),
      last_face_time = now,
      no_face_timeout =
        (case cfg_auto_pause_no_face_ms config of None \<Rightarrow> 2000 | Some ms \<Rightarrow> ms) / 1000,
      action_cooldowns = Map.empty,
      cooldown_times = [''click'' \<mapsto> 2 / 10, ''scroll'' \<mapsto> 1 / 10, ''key'' \<mapsto> 3 / 10],
      require_confirmation =
        (case cfg_require_confirmation config of None \<Rightarrow> {} | Some xs \<Rightarrow> set xs),
      pending_confirmations = Map.empty\<rparr>"

definition update_face_detection :: "SafetyManager \<Rightarrow> bool \<Rightarrow> real \<Rightarrow> SafetyManager" where
  "update_face_detection sm face now =
     (if face then
        let sm1 = sm\<lparr>last_face_time := now\<rparr>
        in if paused sm1 \<and> enabled sm1 then sm1\<lparr>paused := False\<rparr> else sm1
      else
        let time_since_face = now - last_face_time sm
        in if no_face_timeout sm < time_since_face then sm\<lparr>paused := True\<rparr> else sm)"

text \<open>The loop of \<^verbatim>\<open>_check_click_rate\<close>: pop from the left while the oldest entry is more
  than one second old.\<close>

fun remove_old_clicks :: "real \<Rightarrow> real list \<Rightarrow> real list" where
  "remove_old_clicks current_time [] = []"
| "remove_old_clicks current_time (t # ts) =
     (if 1 < current_time - t then remove_old_clicks current_time ts else t # ts)"

definition check_click_rate :: "SafetyManager \<Rightarrow> real \<Rightarrow> bool \<times> SafetyManager" where
  "check_click_rate sm current_time =
     (let sm1 = sm\<lparr>click_times := remove_old_clicks current_time (click_times sm)\<rparr>
      in (int (length (click_times sm1)) < max_clicks_per_second sm1, sm1))"

text \<open>\<^verbatim>\<open>can_perform_action\<close> reads the clock once for the cooldown (\<open>now\<close>) and once more
  inside \<^verbatim>\<open>_check_click_rate\<close> (\<open>now'\<close>).\<close>

definition can_perform_action ::
  "SafetyManager \<Rightarrow> string \<Rightarrow> real \<Rightarrow> real \<Rightarrow> bool \<times> SafetyManager" where
  "can_perform_action sm action_type now now' =
     (if \<not> enabled sm \<or> paused sm then (False, sm)
      else if (case action_cooldowns sm action_type of
                 None \<Rightarrow> False
               | Some last_time \<Rightarrow>
                   now - last_time < (case cooldown_times sm action_type of
                                   None \<Rightarrow> 0 | Some c \<Rightarrow> c))
      then (False, sm)
      else if action_type = ''click'' then
        (case check_click_rate sm now' of
           (ok, sm1) \<Rightarrow> if \<not> ok then (False, sm1) else (True, sm1))
      else (True, sm))"

text \<open>\<^verbatim>\<open>register_action\<close> reads the clock for the cooldown entry (\<open>now\<close>) and again for the
  click window (\<open>now'\<close>).\<close>

definition register_action :: "SafetyManager \<Rightarrow> string \<Rightarrow> real \<Rightarrow> real \<Rightarrow> SafetyManager" where
  "register_action sm action_type now now' =
     (let sm1 = sm\<lparr>action_cooldowns := (action_cooldowns sm)(action_type \<mapsto> now)\<rparr>
      in if action_type = ''click''
         then sm1\<lparr>click_times := deque_append 10 (click_times sm1) now'\<rparr>
         else sm1)"

definition emergency_stop :: "SafetyManager \<Rightarrow> SafetyManager" where
  "emergency_stop sm = sm\<lparr>enabled := False, paused := True\<rparr>"

definition resume :: "SafetyManager \<Rightarrow> SafetyManager" where
  "resume sm =
     sm\<lparr>enabled := True, paused := False, click_times := [], action_cooldowns := Map.empty\<rparr>"

definition is_active :: "SafetyManager \<Rightarrow> bool" where
  "is_active sm \<longleftrightarrow> enabled sm \<and> \<not> paused sm"

text \<open>A run of face-detection updates, each with its clock reading.\<close>

fun face_updates :: "SafetyManager \<Rightarrow> (bool \<times> real) list \<Rightarrow> SafetyManager" where
  "face_updates sm [] = sm"
| "face_updates sm ((face, now) # us) = face_updates (update_face_detection sm face now) us"


section \<open>Example data\<close>

text \<open>A mapper for a 1920 x 1080 screen, calibration points for it, and the states used
  in the examples below.\<close>

definition example_mapper :: GazeMapper where
  "example_mapper = GazeMapper_init Map.empty 1920 1080"

definition calibration_point :: "vec2 \<Rightarrow> vec2 \<Rightarrow> CalibrationPoint" where
  "calibration_point s g =
     \<lparr>screen_pos = s, gaze_pos = g, iris_left = None, iris_right = None\<rparr>"

definition three_points :: "CalibrationPoint list" where
  "three_points =
     [calibration_point (192, 108) (-1, -1),
      calibration_point (960, 540) (0, 0),
      calibration_point (1728, 972) (1, 1)]"

section \<open>Vocabulary of the claims\<close>

text \<open>An iris position inside a frame of the given size.\<close>

definition in_frame :: "vec2 \<Rightarrow> int \<Rightarrow> int \<Rightarrow> bool" where
  "in_frame p frame_width frame_height \<longleftrightarrow>
     0 \<le> fst p \<and> fst p \<le> real_of_int frame_width \<and>
     0 \<le> snd p \<and> snd p \<le> real_of_int frame_height"

text \<open>A gaze vector inside the square \<open>[-1, 1] x [-1, 1]\<close>.\<close>

definition in_gaze_square :: "vec2 \<Rightarrow> bool" where
  "in_gaze_square g \<longleftrightarrow> - 1 \<le> fst g \<and> fst g \<le> 1 \<and> - 1 \<le> snd g \<and> snd g \<le> 1"

text \<open>A screen position inside the rectangle of a \<open>w x h\<close> screen.\<close>

definition on_screen :: "vec2 \<Rightarrow> int \<Rightarrow> int \<Rightarrow> bool" where
  "on_screen p w h \<longleftrightarrow>
     0 \<le> fst p \<and> fst p \<le> real_of_int w \<and> 0 \<le> snd p \<and> snd p \<le> real_of_int h"

text \<open>The default transform that \<^verbatim>\<open>_init_default_mapping\<close> installs for a \<open>w x h\<close> screen.\<close>

definition default_transform :: "int \<Rightarrow> int \<Rightarrow> mat23" where
  "default_transform w h =
     ((real_of_int w / 2, 0, real_of_int w / 2), (0, real_of_int h / 2, real_of_int h / 2))"

text \<open>The anchor of the dead-zone stage during a call of \<^verbatim>\<open>apply\<close>: \<^verbatim>\<open>self.center\<close>, which
  the call sets to the middle of the screen when it is still \<^verbatim>\<open>None\<close>.\<close>

definition anchor :: "VelocityBasedSmoother \<Rightarrow> int \<times> int \<Rightarrow> vec2" where
  "anchor sm screen_size =
     (case center sm of
        None \<Rightarrow> (real_of_int (fst screen_size) / 2, real_of_int (snd screen_size) / 2)
      | Some c \<Rightarrow> c)"

text \<open>A safety manager with the default configuration, created at clock reading 100.\<close>

definition default_config :: SafetyConfig where
  "default_config =
     \<lparr>cfg_max_clicks_per_second = None, cfg_auto_pause_no_face_ms = None,
      cfg_require_confirmation = None\<rparr>"

definition example_safety :: SafetyManager where
  "example_safety = SafetyManager_init default_config 100"


text \<open>The click cooldown has elapsed at clock reading \<open>now\<close>: the test of
  \<^verbatim>\<open>can_perform_action\<close> on \<^verbatim>\<open>action_cooldowns\<close> does not refuse.\<close>

definition cooldown_elapsed :: "SafetyManager \<Rightarrow> string \<Rightarrow> real \<Rightarrow> bool" where
  "cooldown_elapsed sm action_type now \<longleftrightarrow>
     (case action_cooldowns sm action_type of
        None \<Rightarrow> True
      | Some last_time \<Rightarrow>
          \<not> now - last_time < (case cooldown_times sm action_type of None \<Rightarrow> 0 | Some c \<Rightarrow> c))"





text \<open>Four calibration points with one and the same gaze position, and four points with
  gaze positions on one line.\<close>

definition four_coincident :: "CalibrationPoint list" where
  "four_coincident =
     [calibration_point (100, 100) (0, 0),
      calibration_point (100, 100) (0, 0),
      calibration_point (100, 100) (0, 0),
      calibration_point (100, 100) (0, 0)]"

definition four_collinear :: "CalibrationPoint list" where
  "four_collinear =
     [calibration_point (0, 0) (-1, -1),
      calibration_point (960, 540) (0, 0),
      calibration_point (1920, 1080) (1, 1),
      calibration_point (1440, 810) (1 / 2, 1 / 2)]"

text \<open>
  Two answers of the library call. On the matrices of \<open>four_coincident\<close> every row of \<open>a\<close>
  is \<open>(0, 0, 1)\<close> and every row of \<open>b\<close> is \<open>(100, 100)\<close>: the system has rank 1, and
  \<^verbatim>\<open>lstsq\<close> returns its least-squares solution of smallest norm, the constant fit
  \<open>[[0, 0], [0, 0], [100, 100]]\<close>. The other answer is a call that raises.
\<close>

definition lstsq_constant_fit :: lstsq_fn where
  "lstsq_constant_fit a b = Inr ((0, 0), (0, 0), (100, 100))"

definition lstsq_raises :: lstsq_fn where
  "lstsq_raises a b = Inl LinAlgError"

text \<open>An observation with a detected face and the given eye-opening ratios.\<close>

definition eyes :: "real \<Rightarrow> real \<Rightarrow> EyeData" where
  "eyes l r =
     \<lparr>left_eye_aspect_ratio = l, right_eye_aspect_ratio = r, face_detected = True,
      confidence = 1\<rparr>"

text \<open>The engine with the default configuration after its baseline phase on 30 open-eye
  samples of ratio 0.3: both baselines are 0.3, an eye counts as closed below 0.06.\<close>

definition baseline_engine :: ExpressionEngine where
  "baseline_engine =
     (ExpressionEngine_init Map.empty)
       \<lparr>baseline_samples := replicate 30 (3 / 10, 3 / 10), baseline_initialized := True\<rparr>"

text \<open>
  Five frames after the baseline phase. The left eye closes one frame before the right
  one, both reopen together (a short combined blink, classified at 1000.15); well after the
  cooldown of 0.2 s the left eye alone is closed at 1000.40 and open again at 1000.50.
\<close>

definition staggered_blink_then_wink :: "(EyeData \<times> real) list" where
  "staggered_blink_then_wink =
     [(eyes (1 / 100) (3 / 10), 1000),
      (eyes (1 / 100) (1 / 100), 100005 / 100),
      (eyes (3 / 10) (3 / 10), 100015 / 100),
      (eyes (1 / 100) (3 / 10), 100040 / 100),
      (eyes (3 / 10) (3 / 10), 100050 / 100)]"

text \<open>A frame that reaches \<^verbatim>\<open>_detect_blink\<close>: a face is detected and the cooldown after
  the last classified blink is over.\<close>

definition processed :: "ExpressionEngine \<Rightarrow> EyeData \<times> real \<Rightarrow> bool" where
  "processed eng frame \<longleftrightarrow>
     face_detected (fst frame) \<and> \<not> snd frame - last_blink_time eng < blink_cooldown eng"

text \<open>The eyes as a frame shows them to the engine.\<close>

definition shows_both_closed :: "ExpressionEngine \<Rightarrow> EyeData \<times> real \<Rightarrow> bool" where
  "shows_both_closed eng frame \<longleftrightarrow>
     left_closed eng (fst frame) \<and> right_closed eng (fst frame)"

definition shows_left_only_closed :: "ExpressionEngine \<Rightarrow> EyeData \<times> real \<Rightarrow> bool" where
  "shows_left_only_closed eng frame \<longleftrightarrow>
     left_closed eng (fst frame) \<and> \<not> right_closed eng (fst frame)"

definition shows_right_only_closed :: "ExpressionEngine \<Rightarrow> EyeData \<times> real \<Rightarrow> bool" where
  "shows_right_only_closed eng frame \<longleftrightarrow>
     \<not> left_closed eng (fst frame) \<and> right_closed eng (fst frame)"

definition shows_both_open :: "ExpressionEngine \<Rightarrow> EyeData \<times> real \<Rightarrow> bool" where
  "shows_both_open eng frame \<longleftrightarrow>
     \<not> left_closed eng (fst frame) \<and> \<not> right_closed eng (fst frame)"

section \<open>Calibration with too few points\<close>

text \<open>
  C1. With fewer than 4 calibration points \<^verbatim>\<open>compute_calibration\<close> returns \<^verbatim>\<open>False\<close>, logs
  that it needs at least 4 points, and returns the mapper as it was: the transform matrix,
  and every other field, is untouched. The library call is not reached, so this holds
  whatever \<^verbatim>\<open>lstsq\<close> would do.
\<close>

theorem compute_calibration_insufficient_points:
  assumes "length (calibration_points m) < 4"
  shows "compute_calibration lstsq m = ((False, NeedFourPoints), m)
       \<and> transform_matrix (snd (compute_calibration lstsq m)) = transform_matrix m"
  using assms by (simp add: compute_calibration_def)

theorem compute_calibration_insufficient_points_witness:
  "compute_calibration lstsq_constant_fit (example_mapper\<lparr>calibration_points := three_points\<rparr>)
     = ((False, NeedFourPoints), example_mapper\<lparr>calibration_points := three_points\<rparr>)"
  using compute_calibration_insufficient_points
    [of "example_mapper\<lparr>calibration_points := three_points\<rparr>" lstsq_constant_fit]
  by (simp add: three_points_def)

section \<open>The default mapping\<close>

lemma np_clip_bounds: "lo \<le> hi \<Longrightarrow> lo \<le> np_clip x lo hi \<and> np_clip x lo hi \<le> hi"
  by (simp add: np_clip_def)

lemma np_clip_inside: "lo \<le> x \<Longrightarrow> x \<le> hi \<Longrightarrow> np_clip x lo hi = x"
  by (simp add: np_clip_def)

lemma transform_after_init:
  "transform_matrix (GazeMapper_init config w h) = Some (default_transform w h)"
  by (simp add: GazeMapper_init_def init_default_mapping_def default_transform_def)

lemma transform_after_reset:
  "transform_matrix (reset_calibration m)
     = Some (default_transform (screen_width m) (screen_height m))"
  by (simp add: reset_calibration_def init_default_mapping_def default_transform_def)

lemma gaze_to_screen_Some:
  "transform_matrix m = Some T \<Longrightarrow>
   gaze_to_screen m g
     = Inr (np_clip (fst (apply_transform T g)) 0 (real_of_int (screen_width m)),
            np_clip (snd (apply_transform T g)) 0 (real_of_int (screen_height m)))"
  by (simp add: gaze_to_screen_def Let_def)

lemma apply_default_transform:
  "apply_transform (default_transform w h) g
     = (real_of_int w / 2 * fst g + real_of_int w / 2,
        real_of_int h / 2 * snd g + real_of_int h / 2)"
  by (simp add: apply_transform_def default_transform_def)

lemma default_in_square:
  assumes "0 \<le> w" and "- 1 \<le> x" and "x \<le> 1"
  shows "0 \<le> real_of_int w / 2 * x + real_of_int w / 2"
    and "real_of_int w / 2 * x + real_of_int w / 2 \<le> real_of_int w"
proof -
  have w: "0 \<le> real_of_int w / 2" using assms(1) by simp
  have "real_of_int w / 2 * x + real_of_int w / 2 = real_of_int w / 2 * (x + 1)"
    by (simp add: algebra_simps)
  moreover have "0 \<le> real_of_int w / 2 * (x + 1)" using w assms(2) by simp
  moreover have "real_of_int w / 2 * (x + 1) \<le> real_of_int w / 2 * 2"
    using w assms(3) by (intro mult_left_mono) simp_all
  ultimately show "0 \<le> real_of_int w / 2 * x + real_of_int w / 2"
    and "real_of_int w / 2 * x + real_of_int w / 2 \<le> real_of_int w" by simp_all
qed

lemma default_gaze_to_screen_square:
  assumes T: "transform_matrix m = Some (default_transform (screen_width m) (screen_height m))"
    and w: "0 \<le> screen_width m" and h: "0 \<le> screen_height m"
    and g: "in_gaze_square g"
  shows "gaze_to_screen m g
           = Inr (real_of_int (screen_width m) / 2 * fst g + real_of_int (screen_width m) / 2,
                  real_of_int (screen_height m) / 2 * snd g + real_of_int (screen_height m) / 2)"
  using default_in_square [OF w, of "fst g"] default_in_square [OF h, of "snd g"] g
  by (simp add: gaze_to_screen_Some [OF T] apply_default_transform np_clip_inside
      in_gaze_square_def)

lemma default_gaze_to_screen_onto:
  assumes T: "transform_matrix m = Some (default_transform (screen_width m) (screen_height m))"
    and w: "0 \<le> screen_width m" and h: "0 \<le> screen_height m"
    and p: "on_screen p (screen_width m) (screen_height m)"
  shows "\<exists>g. in_gaze_square g \<and> gaze_to_screen m g = Inr p"
proof -
  define W where "W = real_of_int (screen_width m)"
  define H where "H = real_of_int (screen_height m)"
  define gx where "gx = (if W = 0 then 0 else 2 * fst p / W - 1)"
  define gy where "gy = (if H = 0 then 0 else 2 * snd p / H - 1)"
  have W0: "0 \<le> W" and H0: "0 \<le> H" using w h by (simp_all add: W_def H_def)
  have px: "0 \<le> fst p" "fst p \<le> W" and py: "0 \<le> snd p" "snd p \<le> H"
    using p by (simp_all add: on_screen_def W_def H_def)
  have sqx: "- 1 \<le> gx \<and> gx \<le> 1"
    using W0 px by (auto simp: gx_def field_simps)
  have sqy: "- 1 \<le> gy \<and> gy \<le> 1"
    using H0 py by (auto simp: gy_def field_simps)
  have ex: "W / 2 * gx + W / 2 = fst p"
    using W0 px by (auto simp: gx_def field_simps)
  have ey: "H / 2 * gy + H / 2 = snd p"
    using H0 py by (auto simp: gy_def field_simps)
  have sq: "in_gaze_square (gx, gy)" using sqx sqy by (simp add: in_gaze_square_def)
  have "gaze_to_screen m (gx, gy) = Inr p"
    using default_gaze_to_screen_square [OF T w h sq] ex ey
    by (simp add: W_def H_def)
  with sq show ?thesis by blast
qed

lemma gaze_to_screen_bounded:
  assumes T: "transform_matrix m = Some T'"
    and w: "0 \<le> screen_width m" and h: "0 \<le> screen_height m"
  shows "\<exists>p. gaze_to_screen m g = Inr p \<and> on_screen p (screen_width m) (screen_height m)"
  using np_clip_bounds [of 0 "real_of_int (screen_width m)"]
    np_clip_bounds [of 0 "real_of_int (screen_height m)"] w h
  by (simp add: gaze_to_screen_Some [OF T] on_screen_def)

lemma screen_size_after_init:
  "screen_width (GazeMapper_init config w h) = w"
  "screen_height (GazeMapper_init config w h) = h"
  by (simp_all add: GazeMapper_init_def init_default_mapping_def)

lemma screen_size_after_reset:
  "screen_width (reset_calibration m) = screen_width m"
  "screen_height (reset_calibration m) = screen_height m"
  by (simp_all add: reset_calibration_def init_default_mapping_def)

text \<open>
  C10. Right after construction, and again after \<^verbatim>\<open>reset_calibration\<close>, the mapper holds the
  default 2x3 transform of its screen (width and height in pixels, not negative). With it
  \<^verbatim>\<open>gaze_to_screen\<close> returns a position for every gaze vector (it does not raise and is
  never absent) and the position lies on the screen; on the gaze square \<open>[-1, 1] x [-1, 1]\<close>
  it is the affine map \<open>(gx, gy) \<mapsto> (w/2 gx + w/2, h/2 gy + h/2)\<close>, and every position of
  the screen rectangle is the image of a gaze vector of the square.
\<close>

theorem default_mapping_total_bounded_onto:
  assumes m: "m = GazeMapper_init config w h
                \<or> (m = reset_calibration m' \<and> screen_width m' = w \<and> screen_height m' = h)"
    and w: "0 \<le> w" and h: "0 \<le> h"
  shows "transform_matrix m = Some (default_transform w h)
       \<and> (\<forall>g. \<exists>p. gaze_to_screen m g = Inr p \<and> on_screen p w h)
       \<and> (\<forall>g. in_gaze_square g \<longrightarrow>
             gaze_to_screen m g
               = Inr (real_of_int w / 2 * fst g + real_of_int w / 2,
                      real_of_int h / 2 * snd g + real_of_int h / 2))
       \<and> (\<forall>p. on_screen p w h \<longrightarrow> (\<exists>g. in_gaze_square g \<and> gaze_to_screen m g = Inr p))"
proof -
  have sz: "screen_width m = w" "screen_height m = h"
    using m by (auto simp: screen_size_after_init screen_size_after_reset)
  have T: "transform_matrix m = Some (default_transform (screen_width m) (screen_height m))"
    using m by (auto simp: transform_after_init transform_after_reset
        screen_size_after_init screen_size_after_reset)
  have w': "0 \<le> screen_width m" and h': "0 \<le> screen_height m" using w h sz by simp_all
  show ?thesis
    using T gaze_to_screen_bounded [OF T w' h'] default_gaze_to_screen_square [OF T w' h']
      default_gaze_to_screen_onto [OF T w' h']
    unfolding sz by blast
qed

theorem default_mapping_total_bounded_onto_witness:
  "transform_matrix example_mapper = Some ((960, 0, 960), (0, 540, 540))
   \<and> gaze_to_screen example_mapper (1 / 2, - 1 / 2) = Inr (1440, 270)
   \<and> gaze_to_screen (reset_calibration example_mapper) (3, - 2) = Inr (1920, 0)"
proof -
  have a: "example_mapper = GazeMapper_init Map.empty 1920 1080
             \<or> (example_mapper = reset_calibration example_mapper
                 \<and> screen_width example_mapper = 1920 \<and> screen_height example_mapper = 1080)"
    by (simp add: example_mapper_def)
  have sq: "in_gaze_square (1 / 2, - 1 / 2)" by (simp add: in_gaze_square_def)
  from default_mapping_total_bounded_onto [OF a] sq
  have "transform_matrix example_mapper = Some (default_transform 1920 1080)"
    and "gaze_to_screen example_mapper (1 / 2, - 1 / 2) = Inr (1440, 270)"
    by (simp_all add: default_transform_def)
  moreover have "gaze_to_screen (reset_calibration example_mapper) (3, - 2) = Inr (1920, 0)"
    by (simp add: gaze_to_screen_Some [OF transform_after_reset] apply_default_transform
        screen_size_after_reset example_mapper_def screen_size_after_init np_clip_def)
  ultimately show ?thesis by (simp add: default_transform_def)
qed

section \<open>Gaze estimation\<close>

lemma normalize_iris_in_square:
  assumes "0 < fw" and "0 < fh" and "in_frame p fw fh"
  shows "in_gaze_square (normalize_iris p fw fh)"
proof -
  have x: "0 \<le> fst p / real_of_int fw" "fst p / real_of_int fw \<le> 1"
    using assms by (simp_all add: in_frame_def)
  have y: "0 \<le> snd p / real_of_int fh" "snd p / real_of_int fh \<le> 1"
    using assms by (simp_all add: in_frame_def)
  have r: "- 1 \<le> a * 2 - 1 \<and> a * 2 - 1 \<le> 1" if "0 \<le> a" "a \<le> 1" for a :: real
    using that by linarith
  from r [OF x] r [OF y] show ?thesis
    unfolding in_gaze_square_def normalize_iris_def fst_conv snd_conv by blast
qed

lemma mean_in_square:
  "in_gaze_square a \<Longrightarrow> in_gaze_square b \<Longrightarrow>
   in_gaze_square ((fst a + fst b) / 2, (snd a + snd b) / 2)"
  by (simp add: in_gaze_square_def)

text \<open>
  The range of the estimate needs the frame condition only of the iris positions that enter
  it: the left one unless the right eye is present and dominant, the right one unless the
  left eye is present and dominant.
\<close>

lemma estimate_gaze_range_used:
  "estimate_gaze m None None fw fh = None
   \<and> (0 < fw \<and> 0 < fh
        \<and> (left_iris \<noteq> None \<or> right_iris \<noteq> None)
        \<and> (\<forall>p. left_iris = Some p \<and> (right_iris = None \<or> eye_dominance m \<noteq> ''right'')
               \<longrightarrow> in_frame p fw fh)
        \<and> (\<forall>p. right_iris = Some p \<and> (left_iris = None \<or> eye_dominance m \<noteq> ''left'')
               \<longrightarrow> in_frame p fw fh)
      \<longrightarrow> (\<exists>g. estimate_gaze m left_iris right_iris fw fh = Some (Finite g)
                 \<and> in_gaze_square g))"
proof (intro conjI impI)
  show "estimate_gaze m None None fw fh = None" by (simp add: estimate_gaze_def)
next
  assume a: "0 < fw \<and> 0 < fh
        \<and> (left_iris \<noteq> None \<or> right_iris \<noteq> None)
        \<and> (\<forall>p. left_iris = Some p \<and> (right_iris = None \<or> eye_dominance m \<noteq> ''right'')
               \<longrightarrow> in_frame p fw fh)
        \<and> (\<forall>p. right_iris = Some p \<and> (left_iris = None \<or> eye_dominance m \<noteq> ''left'')
               \<longrightarrow> in_frame p fw fh)"
  then have fw: "0 < fw" and fh: "0 < fh" by simp_all
  note sq = normalize_iris_in_square [OF fw fh]
  show "\<exists>g. estimate_gaze m left_iris right_iris fw fh = Some (Finite g) \<and> in_gaze_square g"
  proof (cases left_iris)
    case None
    with a obtain r where r: "right_iris = Some r" by auto
    with None a have "in_frame r fw fh" by simp
    with None r fw fh show ?thesis by (simp add: estimate_gaze_def sq)
  next
    case (Some l)
    show ?thesis
    proof (cases right_iris)
      case None
      with Some a have "in_frame l fw fh" by simp
      with None Some fw fh show ?thesis by (simp add: estimate_gaze_def sq)
    next
      case (Some r)
      note r = this
      consider (left) "eye_dominance m = ''left''"
        | (right) "eye_dominance m = ''right''"
        | (both) "eye_dominance m \<noteq> ''left''" "eye_dominance m \<noteq> ''right''" by blast
      then show ?thesis
      proof cases
        case left
        with a \<open>left_iris = Some l\<close> have "in_frame l fw fh" by simp
        with left r \<open>left_iris = Some l\<close> fw fh show ?thesis
          by (simp add: estimate_gaze_def sq)
      next
        case right
        with a r have "in_frame r fw fh" by simp
        with right r \<open>left_iris = Some l\<close> fw fh show ?thesis
          by (simp add: estimate_gaze_def sq)
      next
        case both
        with a r \<open>left_iris = Some l\<close> have "in_frame l fw fh" "in_frame r fw fh" by simp_all
        then have "in_gaze_square (normalize_iris l fw fh)" "in_gaze_square (normalize_iris r fw fh)"
          by (simp_all add: sq)
        then have "in_gaze_square
            ((fst (normalize_iris l fw fh) + fst (normalize_iris r fw fh)) / 2,
             (snd (normalize_iris l fw fh) + snd (normalize_iris r fw fh)) / 2)"
          by (rule mean_in_square)
        with both r \<open>left_iris = Some l\<close> fw fh show ?thesis
          by (simp add: estimate_gaze_def)
      qed
    qed
  qed
qed

text \<open>
  C3. With positive frame dimensions, at least one iris position present and every present
  iris position within the frame, \<^verbatim>\<open>estimate_gaze\<close> returns a gaze vector with both
  components in \<open>[-1, 1]\<close>. With both iris positions absent it returns \<^verbatim>\<open>None\<close>, whatever
  the frame size: no exception and no default vector.
\<close>

theorem estimate_gaze_range:
  "estimate_gaze m None None fw fh = None
   \<and> (0 < fw \<and> 0 < fh
        \<and> (left_iris \<noteq> None \<or> right_iris \<noteq> None)
        \<and> (\<forall>p. left_iris = Some p \<longrightarrow> in_frame p fw fh)
        \<and> (\<forall>p. right_iris = Some p \<longrightarrow> in_frame p fw fh)
      \<longrightarrow> (\<exists>g. estimate_gaze m left_iris right_iris fw fh = Some (Finite g)
                 \<and> in_gaze_square g))"
  using estimate_gaze_range_used [of m fw fh left_iris right_iris] by blast

theorem estimate_gaze_range_witness:
  "in_frame (160, 360) 640 480
   \<and> in_frame (480, 120) 640 480
   \<and> estimate_gaze example_mapper (Some (160, 360)) (Some (480, 120)) 640 480
       = Some (Finite (0, 0))
   \<and> in_gaze_square (0, 0)"
proof -
  have d: "eye_dominance example_mapper = ''both''"
    by (simp add: example_mapper_def GazeMapper_init_def init_default_mapping_def)
  have f: "in_frame (160, 360) 640 480 \<and> in_frame (480, 120) 640 480"
    by (simp add: in_frame_def)
  have "\<exists>g. estimate_gaze example_mapper (Some (160, 360)) (Some (480, 120)) 640 480
          = Some (Finite g) \<and> in_gaze_square g"
    using estimate_gaze_range
      [of example_mapper 640 480 "Some (160, 360)" "Some (480, 120)"] f
    by simp
  moreover have "estimate_gaze example_mapper (Some (160, 360)) (Some (480, 120)) 640 480
     = Some (Finite (0, 0))"
    by (simp add: estimate_gaze_def d normalize_iris_def)
  ultimately show ?thesis using f by auto
qed

text \<open>
  Nothing clamps the estimate, so the frame condition is needed: under dominance
  \<^verbatim>\<open>'both'\<close> a right iris reported at \<open>x = 1000\<close> for a 100 x 100 frame moves the mean to
  \<open>9.5\<close>.
\<close>

lemma estimate_gaze_not_clamped:
  "estimate_gaze example_mapper (Some (50, 50)) (Some (1000, 50)) 100 100
     = Some (Finite (19 / 2, 0))
   \<and> \<not> in_gaze_square (19 / 2, 0)"
proof -
  have d: "eye_dominance example_mapper = ''both''"
    by (simp add: example_mapper_def GazeMapper_init_def init_default_mapping_def)
  show ?thesis
    by (simp add: estimate_gaze_def d normalize_iris_def in_gaze_square_def)
qed

section \<open>The dead zone\<close>

text \<open>
  C9. When the distance of the input position from the anchor of the dead-zone stage is
  strictly less than the configured radius, \<^verbatim>\<open>apply\<close> returns the anchor itself; the only
  change of the stage is that a still unset anchor is now set (to the middle of the screen),
  the position history is untouched.
\<close>

theorem dead_zone_returns_anchor:
  assumes "norm2 (fst position - fst (anchor sm screen_size),
                  snd position - snd (anchor sm screen_size)) < dead_zone sm"
  shows "apply_smoother sm position screen_size
           = (Finite (anchor sm screen_size), sm\<lparr>center := Some (anchor sm screen_size)\<rparr>)"
  using assms by (simp add: apply_smoother_def anchor_def Let_def)

lemma sqrt_25: "sqrt 25 = 5"
proof -
  have "sqrt 25 = sqrt (5\<^sup>2)" by simp
  also have "\<dots> = \<bar>5\<bar>" by (rule real_sqrt_abs)
  also have "\<dots> = 5" by simp
  finally show ?thesis .
qed

theorem dead_zone_returns_anchor_witness:
  "norm2 (963 - 960, 544 - 540) < dead_zone (VelocityBasedSmoother_init 15 (3 / 2))
   \<and> apply_smoother (VelocityBasedSmoother_init 15 (3 / 2)) (963, 544) (1920, 1080)
       = (Finite (960, 540), (VelocityBasedSmoother_init 15 (3 / 2))\<lparr>center := Some (960, 540)\<rparr>)"
proof -
  have a: "anchor (VelocityBasedSmoother_init 15 (3 / 2)) (1920, 1080) = (960, 540)"
    by (simp add: anchor_def VelocityBasedSmoother_init_def)
  have h: "norm2 (963 - 960, 544 - 540) < dead_zone (VelocityBasedSmoother_init 15 (3 / 2))"
    by (simp add: norm2_def VelocityBasedSmoother_init_def sqrt_25)
  from dead_zone_returns_anchor
    [of "(963, 544)" "VelocityBasedSmoother_init 15 (3 / 2)" "(1920, 1080)"] h
  show ?thesis by (simp add: a)
qed

section \<open>Auto-pause and emergency stop\<close>

lemma enabled_update_face_detection [simp]:
  "enabled (update_face_detection sm face now) = enabled sm"
  by (simp add: update_face_detection_def Let_def)

lemma enabled_face_updates: "enabled (face_updates sm us) = enabled sm"
  by (induction sm us rule: face_updates.induct) simp_all

lemma paused_disabled_update:
  "\<not> enabled sm \<Longrightarrow> paused sm \<Longrightarrow> paused (update_face_detection sm face now)"
  by (simp add: update_face_detection_def Let_def)

lemma paused_disabled_face_updates:
  "\<not> enabled sm \<Longrightarrow> paused sm \<Longrightarrow> paused (face_updates sm us)"
proof (induction sm us rule: face_updates.induct)
  case (1 sm) then show ?case by simp
next
  case (2 sm face now us)
  then show ?case by (simp add: paused_disabled_update)
qed

lemma face_updates_append:
  "face_updates sm (us @ vs) = face_updates (face_updates sm us) vs"
  by (induction sm us rule: face_updates.induct) simp_all

lemma no_face_timeout_update [simp]:
  "no_face_timeout (update_face_detection sm face now) = no_face_timeout sm"
  by (simp add: update_face_detection_def Let_def)

lemma no_face_timeout_face_updates:
  "no_face_timeout (face_updates sm us) = no_face_timeout sm"
  by (induction sm us rule: face_updates.induct) simp_all

lemma last_face_time_update:
  "last_face_time (update_face_detection sm face now)
     = (if face then now else last_face_time sm)"
  by (simp add: update_face_detection_def Let_def)

lemma last_face_time_absent:
  "\<forall>u \<in> set us. \<not> fst u \<Longrightarrow> last_face_time (face_updates sm us) = last_face_time sm"
  by (induction sm us rule: face_updates.induct) (simp_all add: last_face_time_update)

lemma paused_absent_update:
  "paused sm \<Longrightarrow> paused (update_face_detection sm False now)"
  by (simp add: update_face_detection_def Let_def)

lemma paused_absent:
  "paused sm \<Longrightarrow> \<forall>u \<in> set us. \<not> fst u \<Longrightarrow> paused (face_updates sm us)"
proof (induction sm us rule: face_updates.induct)
  case (1 sm) then show ?case by simp
next
  case (2 sm face now us)
  then show ?case by (simp add: paused_absent_update)
qed

lemma pause_after_timeout:
  assumes "\<forall>u \<in> set (us @ vs). \<not> fst u"
    and "no_face_timeout sm < now - last_face_time sm"
  shows "paused (face_updates sm (us @ [(False, now)] @ vs))"
proof -
  let ?s1 = "face_updates sm us"
  have "last_face_time ?s1 = last_face_time sm" "no_face_timeout ?s1 = no_face_timeout sm"
    using assms(1) by (simp_all add: last_face_time_absent no_face_timeout_face_updates)
  then have "paused (update_face_detection ?s1 False now)"
    using assms(2) by (simp add: update_face_detection_def Let_def)
  then have "paused (face_updates (update_face_detection ?s1 False now) vs)"
    using assms(1) by (intro paused_absent) simp_all
  then show ?thesis by (simp add: face_updates_append)
qed

lemma pause_after_last_face:
  assumes "\<forall>u \<in> set (us @ vs). \<not> fst u"
    and "no_face_timeout sm < now - t"
  shows "paused (face_updates sm (pre @ [(True, t)] @ us @ [(False, now)] @ vs))"
proof -
  let ?s1 = "face_updates sm (pre @ [(True, t)])"
  have "last_face_time ?s1 = t" "no_face_timeout ?s1 = no_face_timeout sm"
    by (simp_all add: face_updates_append last_face_time_update no_face_timeout_face_updates)
  then have "paused (face_updates ?s1 (us @ [(False, now)] @ vs))"
    using assms by (intro pause_after_timeout) simp_all
  then show ?thesis by (simp add: face_updates_append)
qed

lemma unpaused_within_timeout:
  assumes "\<not> paused sm"
    and "\<forall>u \<in> set us. \<not> fst u \<and> \<not> no_face_timeout sm < snd u - last_face_time sm"
  shows "\<not> paused (face_updates sm us)"
  using assms
proof (induction sm us rule: face_updates.induct)
  case (1 sm) then show ?case by simp
next
  case (2 sm face now us)
  from "2.prems" have f: "\<not> face" "\<not> no_face_timeout sm < now - last_face_time sm" by simp_all
  then have s: "update_face_detection sm face now = sm"
    by (simp add: update_face_detection_def Let_def)
  from "2.IH" "2.prems" s show ?case by simp
qed

text \<open>
  C7. Face-absent updates leave \<^verbatim>\<open>last_face_time\<close> alone, so in every run of updates a
  face-absent update more than the no-face timeout after the last face (the last
  face-detected update, or the creation of the manager when there was none) sets
  \<^verbatim>\<open>paused\<close>, and further face-absent updates keep it set; while every face-absent update
  is within the timeout, an unpaused manager stays unpaused. A face-detected update
  leaves \<^verbatim>\<open>paused\<close> set exactly when it was set and the manager is disabled, so it clears
  it only while \<^verbatim>\<open>enabled\<close> holds. No run of face-detection updates changes \<^verbatim>\<open>enabled\<close>:
  after an emergency stop the manager stays disabled and paused through every run, refuses
  every action, and is enabled again by \<^verbatim>\<open>resume\<close>.
\<close>

theorem auto_pause_and_emergency_stop:
  "((\<forall>u \<in> set (us @ vs). \<not> fst u) \<and> no_face_timeout sm < now - last_face_time sm
      \<longrightarrow> paused (face_updates sm (us @ [(False, now)] @ vs)))
   \<and> ((\<forall>u \<in> set (us @ vs). \<not> fst u) \<and> no_face_timeout sm < now - t
      \<longrightarrow> paused (face_updates sm (pre @ [(True, t)] @ us @ [(False, now)] @ vs)))
   \<and> (\<not> paused sm
        \<and> (\<forall>u \<in> set us. \<not> fst u \<and> \<not> no_face_timeout sm < snd u - last_face_time sm)
      \<longrightarrow> \<not> paused (face_updates sm us))
   \<and> (no_face_timeout sm < now - last_face_time sm
      \<longrightarrow> paused (update_face_detection sm False now))
   \<and> (paused (update_face_detection sm True now) \<longleftrightarrow> paused sm \<and> \<not> enabled sm)
   \<and> enabled (face_updates sm us) = enabled sm
   \<and> \<not> enabled (face_updates (emergency_stop sm) us)
   \<and> paused (face_updates (emergency_stop sm) us)
   \<and> \<not> fst (can_perform_action (face_updates (emergency_stop sm) us) kind clock clock')
   \<and> enabled (resume (face_updates (emergency_stop sm) us))"
proof -
  have s: "\<not> enabled (emergency_stop sm)" "paused (emergency_stop sm)"
    by (simp_all add: emergency_stop_def)
  have e: "\<not> enabled (face_updates (emergency_stop sm) us)"
    using s by (simp add: enabled_face_updates)
  have 1: "(\<forall>u \<in> set (us @ vs). \<not> fst u) \<and> no_face_timeout sm < now - last_face_time sm
      \<longrightarrow> paused (face_updates sm (us @ [(False, now)] @ vs))"
    using pause_after_timeout [of us vs sm now] by blast
  have 2: "(\<forall>u \<in> set (us @ vs). \<not> fst u) \<and> no_face_timeout sm < now - t
      \<longrightarrow> paused (face_updates sm (pre @ [(True, t)] @ us @ [(False, now)] @ vs))"
    using pause_after_last_face [of us vs sm now t pre] by blast
  have 3: "\<not> paused sm
        \<and> (\<forall>u \<in> set us. \<not> fst u \<and> \<not> no_face_timeout sm < snd u - last_face_time sm)
      \<longrightarrow> \<not> paused (face_updates sm us)"
    using unpaused_within_timeout [of sm us] by blast
  have 4: "no_face_timeout sm < now - last_face_time sm
      \<longrightarrow> paused (update_face_detection sm False now)"
    by (simp add: update_face_detection_def Let_def)
  have 5: "paused (update_face_detection sm True now) \<longleftrightarrow> paused sm \<and> \<not> enabled sm"
    by (auto simp: update_face_detection_def Let_def)
  have 6: "paused (face_updates (emergency_stop sm) us)"
    using s by (rule paused_disabled_face_updates)
  have 7: "\<not> fst (can_perform_action (face_updates (emergency_stop sm) us) kind clock clock')"
    using e by (simp add: can_perform_action_def)
  have 8: "enabled (resume (face_updates (emergency_stop sm) us))"
    by (simp add: resume_def)
  from 1 2 3 4 5 6 7 8 e enabled_face_updates [of sm us] show ?thesis by blast
qed

lemma example_safety_fields:
  "enabled example_safety" "\<not> paused example_safety"
  "last_face_time example_safety = 100" "no_face_timeout example_safety = 2"
  by (simp_all add: example_safety_def SafetyManager_init_def default_config_def)

theorem auto_pause_and_emergency_stop_witness:
  "paused (face_updates example_safety [(False, 101), (False, 1025 / 10), (False, 103)])
   \<and> \<not> paused (face_updates example_safety [(False, 101), (False, 102)])
   \<and> paused (face_updates example_safety [(True, 101), (False, 102), (False, 1035 / 10)])
   \<and> \<not> paused (update_face_detection
        (face_updates example_safety [(False, 101), (False, 1025 / 10), (False, 103)]) True 104)
   \<and> \<not> enabled (face_updates (emergency_stop example_safety) [(False, 103), (True, 104)])
   \<and> paused (face_updates (emergency_stop example_safety) [(False, 103), (True, 104)])"
proof -
  note f = example_safety_fields
  have 1: "paused (face_updates example_safety [(False, 101), (False, 1025 / 10), (False, 103)])"
    using auto_pause_and_emergency_stop
      [where sm = example_safety and us = "[(False, 101)]" and now = "1025 / 10"
         and vs = "[(False, 103)]"]
    by (simp add: f)
  have 2: "\<not> paused (face_updates example_safety [(False, 101), (False, 102)])"
    using auto_pause_and_emergency_stop
      [where sm = example_safety and us = "[(False, 101), (False, 102)]"]
    by (simp add: f)
  have 3: "paused (face_updates example_safety [(True, 101), (False, 102), (False, 1035 / 10)])"
    using auto_pause_and_emergency_stop
      [where sm = example_safety and pre = "[]" and t = 101 and us = "[(False, 102)]"
         and now = "1035 / 10" and vs = "[]"]
    by (simp add: f)
  have e: "enabled (face_updates example_safety [(False, 101), (False, 1025 / 10), (False, 103)])"
    by (simp only: enabled_face_updates f)
  have 4: "\<not> paused (update_face_detection
        (face_updates example_safety [(False, 101), (False, 1025 / 10), (False, 103)]) True 104)"
    using auto_pause_and_emergency_stop
      [where sm = "face_updates example_safety [(False, 101), (False, 1025 / 10), (False, 103)]"
         and now = 104] e
    by blast
  have 5: "\<not> enabled (face_updates (emergency_stop example_safety) [(False, 103), (True, 104)])
      \<and> paused (face_updates (emergency_stop example_safety) [(False, 103), (True, 104)])"
    using auto_pause_and_emergency_stop
      [where sm = example_safety and us = "[(False, 103), (True, 104)]"]
    by blast
  from 1 2 3 4 5 show ?thesis by blast
qed


section \<open>The safety gate as a query\<close>

lemma remove_old_clicks_drop:
  "\<exists>n. remove_old_clicks now ts = drop n ts \<and> (\<forall>t \<in> set (take n ts). 1 < now - t)"
proof (induction ts)
  case Nil show ?case by simp
next
  case (Cons t ts)
  show ?case
  proof (cases "1 < now - t")
    case True
    from Cons obtain n where n: "remove_old_clicks now ts = drop n ts"
      "\<forall>t \<in> set (take n ts). 1 < now - t" by blast
    with True have "remove_old_clicks now (t # ts) = drop (Suc n) (t # ts)
        \<and> (\<forall>u \<in> set (take (Suc n) (t # ts)). 1 < now - u)" by simp
    then show ?thesis by blast
  next
    case False
    then have "remove_old_clicks now (t # ts) = drop 0 (t # ts)
        \<and> (\<forall>u \<in> set (take 0 (t # ts)). 1 < now - u)" by simp
    then show ?thesis by blast
  qed
qed

lemma can_perform_action_click_state:
  assumes "enabled sm" and "\<not> paused sm" and "cooldown_elapsed sm ''click'' now"
  shows "can_perform_action sm ''click'' now now'
     = (int (length (remove_old_clicks now' (click_times sm))) < max_clicks_per_second sm,
        sm\<lparr>click_times := remove_old_clicks now' (click_times sm)\<rparr>)"
  using assms
  by (auto simp: can_perform_action_def check_click_rate_def cooldown_elapsed_def Let_def
      split: option.splits)

lemma can_perform_action_refused:
  assumes "\<not> enabled sm \<or> paused sm \<or> \<not> cooldown_elapsed sm kind now"
  shows "can_perform_action sm kind now now' = (False, sm)"
  using assms
  by (auto simp: can_perform_action_def cooldown_elapsed_def split: option.splits)

lemma can_perform_action_other:
  assumes "kind \<noteq> ''click''"
  shows "snd (can_perform_action sm kind now now') = sm"
  using assms
  by (auto simp: can_perform_action_def split: option.splits)

text \<open>
  C8, as the code has it. \<^verbatim>\<open>can_perform_action\<close> returns a boolean and writes no field but
  the click window: \<^verbatim>\<open>enabled\<close>, \<^verbatim>\<open>paused\<close>, the cooldown timestamps and the rest are as
  before. For every kind other than \<^verbatim>\<open>'click'\<close> the manager is unchanged as a whole. For
  \<^verbatim>\<open>'click'\<close> the window can lose leading timestamps, each of them more than one second
  older than the clock reading of the rate check.
\<close>

theorem can_perform_action_frame:
  "(kind \<noteq> ''click'' \<longrightarrow> snd (can_perform_action sm kind now now') = sm)
   \<and> (\<exists>n. snd (can_perform_action sm kind now now') = sm\<lparr>click_times := drop n (click_times sm)\<rparr>
          \<and> (\<forall>t \<in> set (take n (click_times sm)). 1 < now' - t))"
proof (intro conjI impI)
  assume "kind \<noteq> ''click''"
  then show "snd (can_perform_action sm kind now now') = sm"
    by (rule can_perform_action_other)
next
  have unchanged: "\<exists>n. sm' = sm\<lparr>click_times := drop n (click_times sm)\<rparr>
          \<and> (\<forall>t \<in> set (take n (click_times sm)). 1 < now' - t)" if "sm' = sm" for sm'
  proof -
    have "sm' = sm\<lparr>click_times := drop 0 (click_times sm)\<rparr>
        \<and> (\<forall>t \<in> set (take 0 (click_times sm)). 1 < now' - t)" using that by simp
    then show ?thesis by blast
  qed
  consider (refused) "\<not> enabled sm \<or> paused sm \<or> \<not> cooldown_elapsed sm kind now"
    | (other) "kind \<noteq> ''click''"
    | (click) "enabled sm" "\<not> paused sm" "cooldown_elapsed sm kind now" "kind = ''click''"
    by blast
  then show "\<exists>n. snd (can_perform_action sm kind now now') = sm\<lparr>click_times := drop n (click_times sm)\<rparr>
          \<and> (\<forall>t \<in> set (take n (click_times sm)). 1 < now' - t)"
  proof cases
    case refused
    then show ?thesis by (intro unchanged) (simp add: can_perform_action_refused)
  next
    case other
    then show ?thesis by (intro unchanged) (rule can_perform_action_other)
  next
    case click
    obtain n where n: "remove_old_clicks now' (click_times sm) = drop n (click_times sm)"
      "\<forall>t \<in> set (take n (click_times sm)). 1 < now' - t"
      using remove_old_clicks_drop by blast
    from click have "snd (can_perform_action sm kind now now')
        = sm\<lparr>click_times := remove_old_clicks now' (click_times sm)\<rparr>"
      by (simp add: can_perform_action_click_state)
    with n show ?thesis by auto
  qed
qed

lemma registered_click:
  "click_times (register_action example_safety ''click'' 100 100) = [100]
   \<and> action_cooldowns (register_action example_safety ''click'' 100 100) ''click'' = Some 100"
  by (simp add: register_action_def example_safety_def SafetyManager_init_def deque_append_def)

theorem can_perform_action_frame_witness:
  "snd (can_perform_action (register_action example_safety ''click'' 100 100) ''scroll'' 105 105)
     = register_action example_safety ''click'' 100 100
   \<and> click_times
        (snd (can_perform_action (register_action example_safety ''click'' 100 100) ''click'' 105 105))
       = []"
proof -
  have "snd (can_perform_action (register_action example_safety ''click'' 100 100) ''scroll'' 105 105)
     = register_action example_safety ''click'' 100 100"
    using can_perform_action_frame
      [of "''scroll''" "register_action example_safety ''click'' 100 100" 105 105]
    by simp
  moreover have "click_times
        (snd (can_perform_action (register_action example_safety ''click'' 100 100) ''click'' 105 105))
       = []"
  proof -
    let ?sm = "register_action example_safety ''click'' 100 100"
    have "enabled ?sm" "\<not> paused ?sm"
      by (simp_all add: register_action_def example_safety_def SafetyManager_init_def)
    moreover have "cooldown_elapsed ?sm ''click'' 105"
      by (simp add: cooldown_elapsed_def registered_click)
         (simp add: register_action_def example_safety_def SafetyManager_init_def)
    ultimately show ?thesis
      by (simp add: can_perform_action_click_state registered_click)
  qed
  ultimately show ?thesis by simp
qed

text \<open>
  C8 as stated has the whole state unchanged. \<^verbatim>\<open>_check_click_rate\<close> pops the old entries
  of \<^verbatim>\<open>click_times\<close> while it answers: one click registered at 100 and a query at 105
  leave an empty window.
\<close>

theorem can_perform_action_prunes_counterexample:
  "click_times (register_action example_safety ''click'' 100 100) = [100]
   \<and> fst (can_perform_action (register_action example_safety ''click'' 100 100) ''click'' 105 105)
   \<and> click_times
        (snd (can_perform_action (register_action example_safety ''click'' 100 100) ''click'' 105 105))
       = []
   \<and> snd (can_perform_action (register_action example_safety ''click'' 100 100) ''click'' 105 105)
       \<noteq> register_action example_safety ''click'' 100 100"
proof -
  let ?sm = "register_action example_safety ''click'' 100 100"
  have c: "click_times ?sm = [100]" using registered_click by simp
  have e: "enabled ?sm" "\<not> paused ?sm" "max_clicks_per_second ?sm = 3"
    "cooldown_times ?sm ''click'' = Some (2 / 10)"
    by (simp_all add: register_action_def example_safety_def SafetyManager_init_def
        default_config_def)
  have a: "action_cooldowns ?sm ''click'' = Some 100" using registered_click by simp
  have r: "can_perform_action ?sm ''click'' 105 105 = (True, ?sm\<lparr>click_times := []\<rparr>)"
    by (simp add: can_perform_action_def check_click_rate_def c e a)
  have "click_times (?sm\<lparr>click_times := []\<rparr>) \<noteq> click_times ?sm" by (simp add: c)
  then have "?sm\<lparr>click_times := []\<rparr> \<noteq> ?sm" by metis
  with c r show ?thesis by simp
qed


section \<open>Click-rate limiting\<close>















section \<open>Calibration on degenerate points\<close>

lemma compute_calibration_failure_atomic:
  "\<not> fst (fst (compute_calibration lstsq m)) \<Longrightarrow> snd (compute_calibration lstsq m) = m"
  by (auto simp: compute_calibration_def split: sum.splits)

lemma compute_calibration_enough_points:
  assumes "4 \<le> length (calibration_points m)"
  shows "compute_calibration lstsq m
    = (case lstsq (gaze_matrix (calibration_points m)) (screen_matrix (calibration_points m)) of
         Inl e \<Rightarrow> ((False, CalibrationFailed e), m)
       | Inr X \<Rightarrow>
           ((True, CalibrationComplete (length (calibration_points m))),
            m\<lparr>transform_matrix := Some (transpose32 X), is_calibrated := True\<rparr>))"
  using assms by (simp add: compute_calibration_def)

text \<open>
  C4, as the code has it. \<^verbatim>\<open>compute_calibration\<close> has no test of its own for a singular
  system. For every set of at least 4 calibration points whose gaze positions are all on
  one line or all the same, it fails only when the library call \<^verbatim>\<open>lstsq\<close> raises, and
  then returns \<^verbatim>\<open>False\<close> with the mapper, and so the active transform, unchanged; when
  \<^verbatim>\<open>lstsq\<close> returns a solution, it returns \<^verbatim>\<open>True\<close> and the active transform is that
  solution transposed. Whenever it returns \<^verbatim>\<open>False\<close>, on any points, the mapper is
  unchanged.
\<close>

theorem compute_calibration_degenerate:
  "(\<not> fst (fst (compute_calibration lstsq m)) \<longrightarrow> snd (compute_calibration lstsq m) = m)
   \<and> (4 \<le> length (calibration_points m) \<and> degenerate (map gaze_pos (calibration_points m))
      \<longrightarrow> (case lstsq (gaze_matrix (calibration_points m))
                   (screen_matrix (calibration_points m)) of
             Inl e \<Rightarrow> compute_calibration lstsq m = ((False, CalibrationFailed e), m)
           | Inr X \<Rightarrow>
               compute_calibration lstsq m
                 = ((True, CalibrationComplete (length (calibration_points m))),
                    m\<lparr>transform_matrix := Some (transpose32 X), is_calibrated := True\<rparr>)))"
proof (intro conjI impI)
  assume "\<not> fst (fst (compute_calibration lstsq m))"
  then show "snd (compute_calibration lstsq m) = m" by (rule compute_calibration_failure_atomic)
next
  assume "4 \<le> length (calibration_points m) \<and> degenerate (map gaze_pos (calibration_points m))"
  then have "4 \<le> length (calibration_points m)" by simp
  then show "case lstsq (gaze_matrix (calibration_points m))
                   (screen_matrix (calibration_points m)) of
             Inl e \<Rightarrow> compute_calibration lstsq m = ((False, CalibrationFailed e), m)
           | Inr X \<Rightarrow>
               compute_calibration lstsq m
                 = ((True, CalibrationComplete (length (calibration_points m))),
                    m\<lparr>transform_matrix := Some (transpose32 X), is_calibrated := True\<rparr>)"
    by (simp add: compute_calibration_enough_points split: sum.splits)
qed

theorem compute_calibration_degenerate_witness:
  "4 \<le> length four_collinear
   \<and> degenerate (map gaze_pos four_collinear)
   \<and> compute_calibration lstsq_raises (example_mapper\<lparr>calibration_points := four_collinear\<rparr>)
       = ((False, CalibrationFailed LinAlgError),
          example_mapper\<lparr>calibration_points := four_collinear\<rparr>)"
proof -
  let ?m = "example_mapper\<lparr>calibration_points := four_collinear\<rparr>"
  have l: "4 \<le> length (calibration_points ?m)" by (simp add: four_collinear_def)
  have d: "degenerate (map gaze_pos (calibration_points ?m))"
    by (simp add: four_collinear_def calibration_point_def degenerate_def collinear3_def)
  from compute_calibration_degenerate [of lstsq_raises ?m] l d
  have "compute_calibration lstsq_raises ?m = ((False, CalibrationFailed LinAlgError), ?m)"
    by (simp add: lstsq_raises_def)
  with l d show ?thesis by simp
qed

text \<open>
  C4 as stated has \<^verbatim>\<open>compute_calibration\<close> fail on degenerate gaze positions. Four
  calibration points with one and the same gaze position \<open>(0, 0)\<close> and screen position
  \<open>(100, 100)\<close>: \<^verbatim>\<open>lstsq\<close> returns the constant fit, the call returns \<^verbatim>\<open>True\<close> and
  replaces the default transform by the constant map to \<open>(100, 100)\<close>.
\<close>

theorem compute_calibration_coincident_counterexample:
  "degenerate (map gaze_pos four_coincident)
   \<and> compute_calibration lstsq_constant_fit
        (example_mapper\<lparr>calibration_points := four_coincident\<rparr>)
       = ((True, CalibrationComplete 4),
          example_mapper\<lparr>calibration_points := four_coincident,
            transform_matrix := Some ((0, 0, 100), (0, 0, 100)), is_calibrated := True\<rparr>)
   \<and> transform_matrix example_mapper = Some ((960, 0, 960), (0, 540, 540))"
proof -
  have l: "length four_coincident = 4" by (simp add: four_coincident_def)
  have "degenerate (map gaze_pos four_coincident)"
    by (simp add: four_coincident_def calibration_point_def degenerate_def collinear3_def)
  moreover have "compute_calibration lstsq_constant_fit
        (example_mapper\<lparr>calibration_points := four_coincident\<rparr>)
       = ((True, CalibrationComplete 4),
          example_mapper\<lparr>calibration_points := four_coincident,
            transform_matrix := Some ((0, 0, 100), (0, 0, 100)), is_calibrated := True\<rparr>)"
    by (simp add: compute_calibration_enough_points l lstsq_constant_fit_def)
  moreover have "transform_matrix example_mapper = Some ((960, 0, 960), (0, 540, 540))"
    by (simp add: example_mapper_def GazeMapper_init_def init_default_mapping_def)
  ultimately show ?thesis by simp
qed


section \<open>Blink classification\<close>

lemma baseline_engine_fields:
  "baseline_initialized baseline_engine"
  "baseline_left_ear baseline_engine = 3 / 10"
  "baseline_right_ear baseline_engine = 3 / 10"
  "blink_threshold baseline_engine = 2 / 10"
  "long_blink_duration baseline_engine = 1 / 2"
  "blink_cooldown baseline_engine = 2 / 10"
  "last_blink_time baseline_engine = 0"
  "\<not> left_eye_closed baseline_engine"
  "\<not> right_eye_closed baseline_engine"
  "\<not> both_eyes_closed baseline_engine"
  "blink_start_time baseline_engine = 0"
  by (simp_all add: baseline_engine_def ExpressionEngine_init_def)

lemmas blink_defs =
  detect_expression_def blink_of_frame_def detect_blink_def detect_blink_left_def
  detect_blink_right_def left_closed_def right_closed_def eyes_def Let_def


lemma run_frames_Cons:
  "run_frames eng (f # fs)
     = (blink_of_frame eng (fst f) (snd f)
          # fst (run_frames (snd (detect_expression eng (fst f) (snd f))) fs),
        snd (run_frames (snd (detect_expression eng (fst f) (snd f))) fs))"
  by (cases f) (simp split: prod.splits)

lemma run_frames_append:
  "run_frames eng (fs @ gs)
     = (fst (run_frames eng fs) @ fst (run_frames (snd (run_frames eng fs)) gs),
        snd (run_frames (snd (run_frames eng fs)) gs))"
  by (induction fs arbitrary: eng) (simp_all add: run_frames_Cons)

text \<open>Frames that the engine answers with no classification and no change of state.\<close>

lemma run_frames_quiet:
  assumes "\<And>f. f \<in> set fs \<Longrightarrow>
             snd (detect_expression eng (fst f) (snd f)) = eng
             \<and> blink_of_frame eng (fst f) (snd f) = Some NONE"
  shows "run_frames eng fs = (map (\<lambda>_. Some NONE) fs, eng)"
  using assms by (induction fs) (simp_all add: run_frames_Cons)

lemmas frame_defs =
  processed_def shows_both_closed_def shows_left_only_closed_def shows_right_only_closed_def
  shows_both_open_def detect_expression_def blink_of_frame_def detect_blink_def
  detect_blink_left_def detect_blink_right_def left_closed_def right_closed_def Let_def

lemma both_onset:
  assumes "baseline_initialized eng" and "processed eng f" and "shows_both_closed eng f"
    and "\<not> both_eyes_closed eng"
  shows "snd (detect_expression eng (fst f) (snd f))
           = eng\<lparr>both_eyes_closed := True, blink_start_time := snd f\<rparr>"
    and "blink_of_frame eng (fst f) (snd f) = Some NONE"
  using assms by (simp_all add: frame_defs)

lemma both_held:
  assumes "baseline_initialized eng" and "processed eng f" and "shows_both_closed eng f"
    and "both_eyes_closed eng"
  shows "snd (detect_expression eng (fst f) (snd f)) = eng
       \<and> blink_of_frame eng (fst f) (snd f) = Some NONE"
  using assms by (simp add: frame_defs)

lemma both_release:
  assumes "baseline_initialized eng" and "processed eng f" and "\<not> shows_both_closed eng f"
    and "both_eyes_closed eng"
  shows "blink_of_frame eng (fst f) (snd f)
           = Some (if long_blink_duration eng \<le> snd f - blink_start_time eng
                   then BLINK_BOTH_LONG else BLINK_BOTH)"
  using assms by (auto simp: frame_defs)

lemma left_onset:
  assumes "baseline_initialized eng" and "processed eng f" and "shows_left_only_closed eng f"
    and "\<not> both_eyes_closed eng" and "\<not> left_eye_closed eng" and "\<not> right_eye_closed eng"
  shows "snd (detect_expression eng (fst f) (snd f))
           = eng\<lparr>left_eye_closed := True, blink_start_time := snd f\<rparr>"
    and "blink_of_frame eng (fst f) (snd f) = Some NONE"
  using assms by (simp_all add: frame_defs)

lemma left_held:
  assumes "baseline_initialized eng" and "processed eng f" and "shows_left_only_closed eng f"
    and "\<not> both_eyes_closed eng" and "left_eye_closed eng" and "\<not> right_eye_closed eng"
  shows "snd (detect_expression eng (fst f) (snd f)) = eng
       \<and> blink_of_frame eng (fst f) (snd f) = Some NONE"
  using assms by (simp add: frame_defs)

lemma left_release:
  assumes "baseline_initialized eng" and "processed eng f" and "shows_both_open eng f"
    and "\<not> both_eyes_closed eng" and "left_eye_closed eng" and "\<not> right_eye_closed eng"
  shows "blink_of_frame eng (fst f) (snd f)
           = Some (if snd f - blink_start_time eng < 3 / 10 then BLINK_LEFT else NONE)"
  using assms by (auto simp: frame_defs)

lemma right_onset:
  assumes "baseline_initialized eng" and "processed eng f" and "shows_right_only_closed eng f"
    and "\<not> both_eyes_closed eng" and "\<not> left_eye_closed eng" and "\<not> right_eye_closed eng"
  shows "snd (detect_expression eng (fst f) (snd f))
           = eng\<lparr>right_eye_closed := True, blink_start_time := snd f\<rparr>"
    and "blink_of_frame eng (fst f) (snd f) = Some NONE"
  using assms by (simp_all add: frame_defs)

lemma right_held:
  assumes "baseline_initialized eng" and "processed eng f" and "shows_right_only_closed eng f"
    and "\<not> both_eyes_closed eng" and "\<not> left_eye_closed eng" and "right_eye_closed eng"
  shows "snd (detect_expression eng (fst f) (snd f)) = eng
       \<and> blink_of_frame eng (fst f) (snd f) = Some NONE"
  using assms by (simp add: frame_defs)

lemma right_release:
  assumes "baseline_initialized eng" and "processed eng f" and "shows_both_open eng f"
    and "\<not> both_eyes_closed eng" and "\<not> left_eye_closed eng" and "right_eye_closed eng"
  shows "blink_of_frame eng (fst f) (snd f)
           = Some (if snd f - blink_start_time eng < 3 / 10 then BLINK_RIGHT else NONE)"
  using assms by (auto simp: frame_defs)

lemma run_episode:
  assumes "snd (detect_expression eng (fst f0) (snd f0)) = eng1"
    and "blink_of_frame eng (fst f0) (snd f0) = Some NONE"
    and "\<And>f. f \<in> set held \<Longrightarrow>
           snd (detect_expression eng1 (fst f) (snd f)) = eng1
           \<and> blink_of_frame eng1 (fst f) (snd f) = Some NONE"
  shows "fst (run_frames eng (f0 # held @ [f1]))
           = replicate (Suc (length held)) (Some NONE) @ [blink_of_frame eng1 (fst f1) (snd f1)]"
proof -
  have "run_frames eng1 held = (map (\<lambda>_. Some NONE) held, eng1)"
    using assms(3) by (rule run_frames_quiet)
  then show ?thesis
    using assms(1,2)
    by (simp add: run_frames_Cons run_frames_append map_replicate_const)
qed

lemma settings_kept:
  "processed (eng\<lparr>both_eyes_closed := b, blink_start_time := t\<rparr>) f = processed eng f"
  "processed (eng\<lparr>left_eye_closed := b, blink_start_time := t\<rparr>) f = processed eng f"
  "processed (eng\<lparr>right_eye_closed := b, blink_start_time := t\<rparr>) f = processed eng f"
  "shows_both_closed (eng\<lparr>both_eyes_closed := b, blink_start_time := t\<rparr>) f
     = shows_both_closed eng f"
  "shows_left_only_closed (eng\<lparr>left_eye_closed := b, blink_start_time := t\<rparr>) f
     = shows_left_only_closed eng f"
  "shows_right_only_closed (eng\<lparr>right_eye_closed := b, blink_start_time := t\<rparr>) f
     = shows_right_only_closed eng f"
  "shows_both_open (eng\<lparr>left_eye_closed := b, blink_start_time := t\<rparr>) f
     = shows_both_open eng f"
  "shows_both_open (eng\<lparr>right_eye_closed := b, blink_start_time := t\<rparr>) f
     = shows_both_open eng f"
  by (simp_all add: processed_def shows_both_closed_def shows_left_only_closed_def
      shows_right_only_closed_def shows_both_open_def left_closed_def right_closed_def)

text \<open>
  Closures that begin with the latches clear are classified as C5 says. A closure of both
  eyes needs only the combined latch clear: it is classified at the first frame that no
  longer shows both eyes closed, long when the time between that frame and the first closed
  one reaches the long-blink threshold, short otherwise.
\<close>

lemma combined_closure_classified:
  assumes base: "baseline_initialized eng"
    and proc: "\<forall>f \<in> set (onset # held @ [release]). processed eng f"
    and clear: "\<not> both_eyes_closed eng"
    and on: "shows_both_closed eng onset"
    and held: "\<forall>f \<in> set held. shows_both_closed eng f"
    and rel: "\<not> shows_both_closed eng release"
  shows "fst (run_frames eng (onset # held @ [release]))
           = replicate (Suc (length held)) (Some NONE)
             @ [Some (if long_blink_duration eng \<le> snd release - snd onset
                      then BLINK_BOTH_LONG else BLINK_BOTH)]"
proof -
  let ?e1 = "eng\<lparr>both_eyes_closed := True, blink_start_time := snd onset\<rparr>"
  have p: "processed eng onset" "processed eng release" "\<And>f. f \<in> set held \<Longrightarrow> processed eng f"
    using proc by simp_all
  have b1: "baseline_initialized ?e1" "both_eyes_closed ?e1" using base by simp_all
  have "fst (run_frames eng (onset # held @ [release]))
      = replicate (Suc (length held)) (Some NONE)
        @ [blink_of_frame ?e1 (fst release) (snd release)]"
  proof (rule run_episode)
    show "snd (detect_expression eng (fst onset) (snd onset)) = ?e1"
      using base p(1) on clear by (rule both_onset)
    show "blink_of_frame eng (fst onset) (snd onset) = Some NONE"
      using base p(1) on clear by (rule both_onset)
    show "snd (detect_expression ?e1 (fst f) (snd f)) = ?e1
        \<and> blink_of_frame ?e1 (fst f) (snd f) = Some NONE" if "f \<in> set held" for f
      using that held p(3) b1 by (intro both_held) (simp_all add: settings_kept)
  qed
  moreover have "blink_of_frame ?e1 (fst release) (snd release)
      = Some (if long_blink_duration ?e1 \<le> snd release - blink_start_time ?e1
              then BLINK_BOTH_LONG else BLINK_BOTH)"
    using b1 p(2) rel by (intro both_release) (simp_all add: settings_kept)
  ultimately show ?thesis by simp
qed

text \<open>
  A closure of one eye, the other eye open throughout, with all three latches clear at its
  first frame: it is classified as that eye's blink when the eye is open again less than
  0.3 s after the first closed frame, and not at all otherwise.
\<close>

lemma left_closure_classified:
  assumes base: "baseline_initialized eng"
    and proc: "\<forall>f \<in> set (onset # held @ [release]). processed eng f"
    and clear: "\<not> both_eyes_closed eng" "\<not> left_eye_closed eng" "\<not> right_eye_closed eng"
    and on: "shows_left_only_closed eng onset"
    and held: "\<forall>f \<in> set held. shows_left_only_closed eng f"
    and rel: "shows_both_open eng release"
  shows "fst (run_frames eng (onset # held @ [release]))
           = replicate (Suc (length held)) (Some NONE)
             @ [Some (if snd release - snd onset < 3 / 10 then BLINK_LEFT else NONE)]"
proof -
  let ?e1 = "eng\<lparr>left_eye_closed := True, blink_start_time := snd onset\<rparr>"
  have p: "processed eng onset" "processed eng release" "\<And>f. f \<in> set held \<Longrightarrow> processed eng f"
    using proc by simp_all
  have b1: "baseline_initialized ?e1" "\<not> both_eyes_closed ?e1" "left_eye_closed ?e1"
    "\<not> right_eye_closed ?e1" using base clear by simp_all
  have "fst (run_frames eng (onset # held @ [release]))
      = replicate (Suc (length held)) (Some NONE)
        @ [blink_of_frame ?e1 (fst release) (snd release)]"
  proof (rule run_episode)
    show "snd (detect_expression eng (fst onset) (snd onset)) = ?e1"
      using base p(1) on clear by (rule left_onset)
    show "blink_of_frame eng (fst onset) (snd onset) = Some NONE"
      using base p(1) on clear by (rule left_onset)
    show "snd (detect_expression ?e1 (fst f) (snd f)) = ?e1
        \<and> blink_of_frame ?e1 (fst f) (snd f) = Some NONE" if "f \<in> set held" for f
      using that held p(3) b1 by (intro left_held) (simp_all add: settings_kept)
  qed
  moreover have "blink_of_frame ?e1 (fst release) (snd release)
      = Some (if snd release - blink_start_time ?e1 < 3 / 10 then BLINK_LEFT else NONE)"
    using b1 p(2) rel by (intro left_release) (simp_all add: settings_kept)
  ultimately show ?thesis by simp
qed

lemma right_closure_classified:
  assumes base: "baseline_initialized eng"
    and proc: "\<forall>f \<in> set (onset # held @ [release]). processed eng f"
    and clear: "\<not> both_eyes_closed eng" "\<not> left_eye_closed eng" "\<not> right_eye_closed eng"
    and on: "shows_right_only_closed eng onset"
    and held: "\<forall>f \<in> set held. shows_right_only_closed eng f"
    and rel: "shows_both_open eng release"
  shows "fst (run_frames eng (onset # held @ [release]))
           = replicate (Suc (length held)) (Some NONE)
             @ [Some (if snd release - snd onset < 3 / 10 then BLINK_RIGHT else NONE)]"
proof -
  let ?e1 = "eng\<lparr>right_eye_closed := True, blink_start_time := snd onset\<rparr>"
  have p: "processed eng onset" "processed eng release" "\<And>f. f \<in> set held \<Longrightarrow> processed eng f"
    using proc by simp_all
  have b1: "baseline_initialized ?e1" "\<not> both_eyes_closed ?e1" "\<not> left_eye_closed ?e1"
    "right_eye_closed ?e1" using base clear by simp_all
  have "fst (run_frames eng (onset # held @ [release]))
      = replicate (Suc (length held)) (Some NONE)
        @ [blink_of_frame ?e1 (fst release) (snd release)]"
  proof (rule run_episode)
    show "snd (detect_expression eng (fst onset) (snd onset)) = ?e1"
      using base p(1) on clear by (rule right_onset)
    show "blink_of_frame eng (fst onset) (snd onset) = Some NONE"
      using base p(1) on clear by (rule right_onset)
    show "snd (detect_expression ?e1 (fst f) (snd f)) = ?e1
        \<and> blink_of_frame ?e1 (fst f) (snd f) = Some NONE" if "f \<in> set held" for f
      using that held p(3) b1 by (intro right_held) (simp_all add: settings_kept)
  qed
  moreover have "blink_of_frame ?e1 (fst release) (snd release)
      = Some (if snd release - blink_start_time ?e1 < 3 / 10 then BLINK_RIGHT else NONE)"
    using b1 p(2) rel by (intro right_release) (simp_all add: settings_kept)
  ultimately show ?thesis by simp
qed

text \<open>The baseline phase: 30 samples are collected, the next frame computes the means.\<close>

lemma baseline_collects:
  assumes "\<not> baseline_initialized eng" and "length (baseline_samples eng) + n \<le> 30"
  shows "run_frames eng (replicate n (eyes a b, t))
           = (replicate n None, eng\<lparr>baseline_samples := baseline_samples eng @ replicate n (a, b)\<rparr>)"
  using assms
proof (induction n arbitrary: eng)
  case 0
  then show ?case by simp
next
  case (Suc n)
  let ?e1 = "eng\<lparr>baseline_samples := baseline_samples eng @ [(a, b)]\<rparr>"
  have step: "snd (detect_expression eng (eyes a b) t) = ?e1"
    "blink_of_frame eng (eyes a b) t = None"
    using Suc.prems by (simp_all add: detect_expression_def blink_of_frame_def
        update_baseline_def eyes_def)
  have "run_frames ?e1 (replicate n (eyes a b, t))
      = (replicate n None, ?e1\<lparr>baseline_samples := baseline_samples ?e1 @ replicate n (a, b)\<rparr>)"
    using Suc.prems by (intro Suc.IH) simp_all
  then show ?case
    by (simp add: run_frames_Cons step replicate_app_Cons_same)
qed

lemma baseline_phase:
  "run_frames (ExpressionEngine_init Map.empty) (replicate 31 (eyes (3 / 10) (3 / 10), 990))
     = (replicate 31 None, baseline_engine)"
proof -
  let ?f = "(eyes (3 / 10) (3 / 10), 990 :: real)"
  let ?e0 = "ExpressionEngine_init Map.empty"
  let ?e30 = "?e0\<lparr>baseline_samples := replicate 30 (3 / 10, 3 / 10)\<rparr>"
  have "run_frames ?e0 (replicate 30 ?f)
      = (replicate 30 None, ?e0\<lparr>baseline_samples := baseline_samples ?e0 @ replicate 30 (3 / 10, 3 / 10)\<rparr>)"
    by (rule baseline_collects) (simp_all add: ExpressionEngine_init_def)
  then have 30: "run_frames ?e0 (replicate 30 ?f) = (replicate 30 None, ?e30)"
    by (simp add: ExpressionEngine_init_def)
  have mean: "np_mean (map fst (replicate 30 (3 / 10, 3 / 10 :: real))) = 3 / 10"
    "np_mean (map snd (replicate 30 (3 / 10 :: real, 3 / 10))) = 3 / 10"
    by (simp_all add: np_mean_def sum_list_replicate)
  have "update_baseline ?e30 (fst ?f)
      = ?e30\<lparr>baseline_left_ear := np_mean (map fst (replicate 30 (3 / 10, 3 / 10 :: real))),
             baseline_right_ear := np_mean (map snd (replicate 30 (3 / 10 :: real, 3 / 10))),
             baseline_initialized := True\<rparr>"
    by (simp add: update_baseline_def eyes_def)
  also have "\<dots> = baseline_engine"
    unfolding mean by (simp add: baseline_engine_def ExpressionEngine_init_def)
  finally have ub: "update_baseline ?e30 (fst ?f) = baseline_engine" .
  have last: "snd (detect_expression ?e30 (fst ?f) (snd ?f)) = baseline_engine"
    "blink_of_frame ?e30 (fst ?f) (snd ?f) = None"
    using ub by (simp_all add: detect_expression_def blink_of_frame_def eyes_def
        ExpressionEngine_init_def)
  have "replicate 31 ?f = replicate (Suc 30) ?f" by simp
  also have "\<dots> = replicate 30 ?f @ [?f]"
    by (simp only: replicate_append_same replicate_Suc)
  finally have "replicate 31 ?f = replicate 30 ?f @ [?f]" .
  then have "run_frames ?e0 (replicate 31 ?f)
      = (replicate 30 None @ [None], baseline_engine)"
    using 30 last by (simp only: run_frames_append run_frames_Cons) simp
  also have "replicate 30 None @ [None] = (replicate (Suc 30) None :: Expression option list)"
    by (simp only: replicate_append_same replicate_Suc)
  also have "\<dots> = replicate 31 None" by simp
  finally show ?thesis .
qed

text \<open>
  C5 on a run where the latches are not clear. A new engine sees 31 open-eye frames (the
  baseline phase), then the five frames of \<open>staggered_blink_then_wink\<close>. The left eye
  closes one frame before the right one, so \<^verbatim>\<open>left_eye_closed\<close> is set; the combined blink
  is classified at the third frame by an early \<^verbatim>\<open>return\<close> that leaves this latch set and
  puts \<^verbatim>\<open>blink_start_time\<close> to 0. The fourth and fifth frame, both after the cooldown,
  show a closure of the left eye alone that lasts 0.1 s with the right eye open: the engine
  classifies nothing, where C5 has a left blink. The same two frames on an engine with
  clear latches are classified as the left blink.
\<close>

theorem stale_latch_swallows_wink:
  "fst (run_frames (ExpressionEngine_init Map.empty)
          (replicate 31 (eyes (3 / 10) (3 / 10), 990) @ staggered_blink_then_wink))
     = replicate 31 None @ [Some NONE, Some NONE, Some BLINK_BOTH, Some NONE, Some NONE]
   \<and> shows_left_only_closed baseline_engine (staggered_blink_then_wink ! 3)
   \<and> shows_both_open baseline_engine (staggered_blink_then_wink ! 4)
   \<and> snd (staggered_blink_then_wink ! 4) - snd (staggered_blink_then_wink ! 3) = 1 / 10
   \<and> fst (run_frames baseline_engine (drop 3 staggered_blink_then_wink))
       = [Some NONE, Some BLINK_LEFT]"
proof -
  have "fst (run_frames baseline_engine staggered_blink_then_wink)
     = [Some NONE, Some NONE, Some BLINK_BOTH, Some NONE, Some NONE]
   \<and> fst (run_frames baseline_engine (drop 3 staggered_blink_then_wink))
     = [Some NONE, Some BLINK_LEFT]"
    by (simp add: staggered_blink_then_wink_def blink_defs baseline_engine_fields)
  moreover have "shows_left_only_closed baseline_engine (staggered_blink_then_wink ! 3)
   \<and> shows_both_open baseline_engine (staggered_blink_then_wink ! 4)
   \<and> snd (staggered_blink_then_wink ! 4) - snd (staggered_blink_then_wink ! 3) = 1 / 10"
    by (simp add: staggered_blink_then_wink_def shows_left_only_closed_def shows_both_open_def
        left_closed_def right_closed_def eyes_def baseline_engine_fields)
  ultimately show ?thesis
    by (simp add: run_frames_append baseline_phase)
qed

end
